theory Spec2Isabelle
  imports Complex_Main
begin

section \<open>RF Spectrum Observatory: spectral pipeline and tile aggregation\<close>

text \<open>
  A shallow embedding of \<^verbatim>\<open>src/dsp\<close>, \<^verbatim>\<open>src/geo\<close> and the parts of
  \<^verbatim>\<open>src/common\<close> they use. CuPy arrays of \<^verbatim>\<open>float32\<close> and \<^verbatim>\<open>complex64\<close> are lists of
  \<open>real\<close> and \<open>complex\<close>: the signal-processing functions are modelled in exact arithmetic
  (rounding, infinities and NaN are outside the model). The tile grid, whose results are
  decided by truncation of a quotient, is modelled over a parameter for the arithmetic,
  which is IEEE binary64, the arithmetic of Python's \<^verbatim>\<open>float\<close>.
  Exceptions are values of type \<open>error\<close>; a function that can raise returns \<open>error + 'a\<close>,
  and a method that mutates its object returns the object after the call as well.
\<close>

subsection \<open>Errors\<close>

datatype error =
    ShapeMismatch       \<comment> \<open>ValueError: operands could not be broadcast together\<close>
  | EmptyFFT            \<comment> \<open>ValueError: invalid number of FFT data points\<close>
  | ZeroDivision        \<comment> \<open>ZeroDivisionError of a Python float division\<close>
  | UnknownWindow       \<comment> \<open>ValueError("Unknown window type: ...")\<close>
  | PercentileDomain    \<comment> \<open>ValueError: percentiles must be in the range [0, 100]\<close>
  | MaskMismatch        \<comment> \<open>IndexError: boolean index did not match the indexed array\<close>
  | MissingColumn       \<comment> \<open>KeyError of a groupby aggregation over an absent column\<close>
  | UnknownTile         \<comment> \<open>ValueError("Unknown tile_id: ...")\<close>
  | InvalidFFTSize | InvalidWindowType | InvalidSmoothing | InvalidTileSize | InvalidUpdateRate
                        \<comment> \<open>the ValueErrors of \<^verbatim>\<open>Config.validate\<close>\<close>

subsection \<open>Data types (common/types.py)\<close>

text \<open>Record fields are global names in HOL, so each dataclass's fields carry a prefix.\<close>

record IQFrame =
  iq_frame_id :: int
  iq_timestamp_ns :: int
  center_freq_hz :: real
  sample_rate_sps :: real
  gain_db :: "real option"
  iq :: "complex list"

record GPSFix =
  gps_timestamp_ns :: int
  gps_lat_deg :: real
  gps_lon_deg :: real
  alt_m :: "real option"
  heading_deg :: "real option"
  speed_mps :: "real option"

record Band =
  band_name :: string
  start_hz :: real
  end_hz :: real

record FrameFeatures =
  frame_id :: int
  timestamp_ns :: int
  lat_deg :: "real option"
  lon_deg :: "real option"
  freq_bins_hz :: "real list"
  psd_db :: "real list"
  psd_smoothed_db :: "real list"
  noise_floor_db :: real
  bandpower_db :: "real list"
  occupancy_pct :: "real list"
  anomaly_score :: "real option"

subsection \<open>Array arithmetic of NumPy/CuPy on one-dimensional arrays\<close>

text \<open>
  A binary operator on two one-dimensional arrays broadcasts: equal lengths combine
  element-wise, an array of length 1 is stretched to the other's length, and any other pair
  of lengths raises.
\<close>

definition broadcast2 :: "('a \<Rightarrow> 'b \<Rightarrow> 'c) \<Rightarrow> 'a list \<Rightarrow> 'b list \<Rightarrow> error + 'c list" where
  "broadcast2 f xs ys =
     (if length xs = length ys then Inr (map (\<lambda>(x, y). f x y) (zip xs ys))
      else if length xs = 1 then Inr (map (\<lambda>y. f (hd xs) y) ys)
      else if length ys = 1 then Inr (map (\<lambda>x. f x (hd ys)) xs)
      else Inl ShapeMismatch)"

text \<open>Boolean-mask indexing \<^verbatim>\<open>a[mask]\<close>: the mask must be as long as the array.\<close>

definition mask_select :: "bool list \<Rightarrow> 'a list \<Rightarrow> error + 'a list" where
  "mask_select msk xs =
     (if length msk = length xs then Inr (map snd (filter fst (zip msk xs)))
      else Inl MaskMismatch)"

subsection \<open>Windows (dsp/windows.py)\<close>

text \<open>
  The periodic (\<^verbatim>\<open>sym=False\<close>) cosine-sum windows of cuSignal; a window of length at most
  1 is all ones.
\<close>

definition cosine_window :: "real list \<Rightarrow> nat \<Rightarrow> real list" where
  "cosine_window a M =
     (if M \<le> 1 then replicate M 1
      else map (\<lambda>n. sum_list (map (\<lambda>k. (- 1) ^ k * a ! k * cos (2 * pi * real k * real n / real M))
                                   [0..<length a]))
               [0..<M])"

definition get_window :: "string \<Rightarrow> nat \<Rightarrow> error + real list" where
  "get_window window_type n =
     (if window_type = ''hann'' then Inr (cosine_window [0.5, 0.5] n)
      else if window_type = ''hamming'' then Inr (cosine_window [0.54, 0.46] n)
      else if window_type = ''blackman'' then Inr (cosine_window [0.42, 0.5, 0.08] n)
      else Inl UnknownWindow)"

subsection \<open>FFT and PSD (dsp/fft_psd.py)\<close>

text \<open>\<^verbatim>\<open>cp.fft.fft\<close>: the discrete Fourier transform; an empty input raises.\<close>

definition dft :: "complex list \<Rightarrow> complex list" where
  "dft xs =
     map (\<lambda>k. sum_list (map (\<lambda>n. xs ! n * cis (- (2 * pi * real k * real n / real (length xs))))
                             [0..<length xs]))
         [0..<length xs]"

definition compute_fft :: "complex list \<Rightarrow> error + complex list" where
  "compute_fft signal = (if signal = [] then Inl EmptyFFT else Inr (dft signal))"

text \<open>\<^verbatim>\<open>cp.fft.fftfreq(n, d)\<close> and \<^verbatim>\<open>cp.fft.fftshift\<close> (a roll by \<open>n div 2\<close>).\<close>

definition fftfreq :: "nat \<Rightarrow> real \<Rightarrow> real list" where
  "fftfreq n d =
     map (\<lambda>i. (if i \<le> (n - 1) div 2 then real i else real i - real n) * (1 / (real n * d)))
         [0..<n]"

definition fftshift :: "'a list \<Rightarrow> 'a list" where
  "fftshift xs = (let k = length xs - length xs div 2 in drop k xs @ take k xs)"

definition compute_psd :: "complex list \<Rightarrow> real \<Rightarrow> real \<Rightarrow> error + real list \<times> real list" where
  "compute_psd fft_result sample_rate window_power_correction =
     (let N = length fft_result;
          power = map (\<lambda>z. (cmod z)\<^sup>2) fft_result;
          psd_linear = map (\<lambda>p. p / (real N * sample_rate * window_power_correction)) power
      in if sample_rate = 0 then Inl ZeroDivision
         else Inr (fftshift (fftfreq N (1 / sample_rate)), fftshift psd_linear))"

definition linear_to_db :: "real list \<Rightarrow> real \<Rightarrow> real list" where
  "linear_to_db lin floor_db =
     (let floor_linear = 10 powr (floor_db / 10)
      in map (\<lambda>x. 10 * log 10 (max x floor_linear)) lin)"

definition compute_fft_psd ::
  "IQFrame \<Rightarrow> real list \<Rightarrow> real \<Rightarrow> error + real list \<times> real list \<times> real list" where
  "compute_fft_psd frame window window_power_correction =
     (case broadcast2 (\<lambda>z w. z * complex_of_real w) (iq frame) window of
        Inl e \<Rightarrow> Inl e
      | Inr windowed \<Rightarrow>
          (case compute_fft windowed of
             Inl e \<Rightarrow> Inl e
           | Inr fft_result \<Rightarrow>
               (case compute_psd fft_result (sample_rate_sps frame) window_power_correction of
                  Inl e \<Rightarrow> Inl e
                | Inr (freq_bins, psd_linear) \<Rightarrow>
                    Inr (freq_bins, linear_to_db psd_linear (- 120), psd_linear))))"

subsection \<open>EMA smoothing (dsp/smoothing.py)\<close>

record EMAFilter =
  alpha :: real
  ema_size :: nat
  ema_state :: "real list option"

definition EMAFilter_init :: "real \<Rightarrow> nat \<Rightarrow> EMAFilter" where
  "EMAFilter_init a n = \<lparr>alpha = a, ema_size = n, ema_state = None\<rparr>"

text \<open>The returned filter is the object after the call; a raise leaves it as it was.\<close>

definition EMAFilter_update :: "EMAFilter \<Rightarrow> real list \<Rightarrow> (error + real list) \<times> EMAFilter" where
  "EMAFilter_update f new_value =
     (case ema_state f of
        None \<Rightarrow> (Inr new_value, f\<lparr>ema_state := Some new_value\<rparr>)
      | Some state \<Rightarrow>
          (case broadcast2 (+) (map (\<lambda>x. alpha f * x) new_value)
                               (map (\<lambda>s. (1 - alpha f) * s) state) of
             Inl e \<Rightarrow> (Inl e, f)
           | Inr y \<Rightarrow> (Inr y, f\<lparr>ema_state := Some y\<rparr>)))"

text \<open>A sequence of calls of \<^verbatim>\<open>update\<close> on one filter, with the result of each.\<close>

fun update_all :: "EMAFilter \<Rightarrow> real list list \<Rightarrow> (error + real list) list \<times> EMAFilter" where
  "update_all f [] = ([], f)"
| "update_all f (x # xs) =
     (case EMAFilter_update f x of
        (y, f') \<Rightarrow> (case update_all f' xs of (ys, f'') \<Rightarrow> (y # ys, f'')))"

definition EMAFilter_reset :: "EMAFilter \<Rightarrow> EMAFilter" where
  "EMAFilter_reset f = f\<lparr>ema_state := None\<rparr>"

subsection \<open>Features (dsp/features.py)\<close>

text \<open>
  \<^verbatim>\<open>cp.percentile\<close> with linear interpolation between the two nearest order statistics;
  a percentile outside [0, 100] raises, and so does (in this model) an empty array.
\<close>

definition percentile :: "real list \<Rightarrow> real \<Rightarrow> error + real" where
  "percentile a q =
     (if a = [] \<or> q < 0 \<or> 100 < q then Inl PercentileDomain
      else let s = sort a;
               pos = q / 100 * real (length a - 1);
               lo = nat \<lfloor>pos\<rfloor>;
               hi = min (lo + 1) (length a - 1)
           in Inr (s ! lo + (pos - real lo) * (s ! hi - s ! lo)))"

definition estimate_noise_floor :: "real list \<Rightarrow> real \<Rightarrow> error + real" where
  "estimate_noise_floor psd q = percentile psd q"

definition band_mask :: "real list \<Rightarrow> Band \<Rightarrow> real \<Rightarrow> bool list" where
  "band_mask freq_bins band center_freq =
     map (\<lambda>f. start_hz band - center_freq \<le> f \<and> f \<le> end_hz band - center_freq) freq_bins"

definition compute_bandpower :: "real list \<Rightarrow> real list \<Rightarrow> Band \<Rightarrow> real \<Rightarrow> error + real" where
  "compute_bandpower freq_bins psd_linear band center_freq =
     (let msk = band_mask freq_bins band center_freq;
          bin_width = (if length freq_bins > 1 then freq_bins ! 1 - freq_bins ! 0 else 1)
      in case mask_select msk psd_linear of
           Inl e \<Rightarrow> Inl e
         | Inr sel \<Rightarrow> Inr (10 * log 10 (max (sum_list sel * bin_width) (1 / 10 ^ 12))))"

definition compute_occupancy ::
  "real list \<Rightarrow> real list \<Rightarrow> Band \<Rightarrow> real \<Rightarrow> real \<Rightarrow> real \<Rightarrow> error + real" where
  "compute_occupancy freq_bins psd band center_freq noise_floor threshold_db =
     (case mask_select (band_mask freq_bins band center_freq) psd of
        Inl e \<Rightarrow> Inl e
      | Inr psd_in_band \<Rightarrow>
          if length psd_in_band = 0 then Inr 0
          else Inr (real (length (filter (\<lambda>p. p > noise_floor + threshold_db) psd_in_band))
                    / real (length psd_in_band) * 100))"

text \<open>The loop over the bands stops at the first band that raises.\<close>

fun extract_band_features ::
  "real list \<Rightarrow> real list \<Rightarrow> real list \<Rightarrow> Band list \<Rightarrow> real \<Rightarrow> real
     \<Rightarrow> error + real list \<times> real list" where
  "extract_band_features freq_bins psd psd_linear [] center_freq noise_floor = Inr ([], [])"
| "extract_band_features freq_bins psd psd_linear (band # bands) center_freq noise_floor =
     (case compute_bandpower freq_bins psd_linear band center_freq of
        Inl e \<Rightarrow> Inl e
      | Inr bp \<Rightarrow>
          (case compute_occupancy freq_bins psd band center_freq noise_floor 6 of
             Inl e \<Rightarrow> Inl e
           | Inr occ \<Rightarrow>
               (case extract_band_features freq_bins psd psd_linear bands center_freq noise_floor of
                  Inl e \<Rightarrow> Inl e
                | Inr (bps, occs) \<Rightarrow> Inr (bp # bps, occ # occs))))"

subsection \<open>The pipeline (dsp/pipeline.py)\<close>

record DSPPipeline =
  fft_size :: nat
  window_type :: string
  smoothing_factor :: real
  noise_floor_percentile :: real
  bands :: "Band list"
  window :: "real list"
  window_power_correction :: real
  ema_filter :: EMAFilter
  gps_fixes :: "GPSFix list"

definition DSPPipeline_init ::
  "nat \<Rightarrow> string \<Rightarrow> real \<Rightarrow> real \<Rightarrow> Band list \<Rightarrow> error + DSPPipeline" where
  "DSPPipeline_init n wt a q bs =
     (case get_window wt n of
        Inl e \<Rightarrow> Inl e
      | Inr w \<Rightarrow>
          Inr \<lparr>fft_size = n, window_type = wt, smoothing_factor = a,
               noise_floor_percentile = q, bands = bs, window = w,
               window_power_correction = sum_list (map (\<lambda>x. x\<^sup>2) w),
               ema_filter = EMAFilter_init a n, gps_fixes = []\<rparr>)"

definition add_gps_fix :: "DSPPipeline \<Rightarrow> GPSFix \<Rightarrow> DSPPipeline" where
  "add_gps_fix p fix =
     (let fixes = gps_fixes p @ [fix]
      in p\<lparr>gps_fixes := (if length fixes > 100 then drop (length fixes - 100) fixes else fixes)\<rparr>)"

definition process_frame :: "DSPPipeline \<Rightarrow> IQFrame \<Rightarrow> (error + FrameFeatures) \<times> DSPPipeline" where
  "process_frame p frame =
     (case compute_fft_psd frame (window p) (window_power_correction p) of
        Inl e \<Rightarrow> (Inl e, p)
      | Inr (freq_bins, psd, psd_linear) \<Rightarrow>
          (case EMAFilter_update (ema_filter p) psd of
             (Inl e, f') \<Rightarrow> (Inl e, p\<lparr>ema_filter := f'\<rparr>)
           | (Inr psd_smoothed, f') \<Rightarrow>
               (let p' = p\<lparr>ema_filter := f'\<rparr> in
                case estimate_noise_floor psd_smoothed (noise_floor_percentile p) of
                  Inl e \<Rightarrow> (Inl e, p')
                | Inr noise_floor \<Rightarrow>
                    (case extract_band_features freq_bins psd psd_linear (bands p)
                            (center_freq_hz frame) noise_floor of
                       Inl e \<Rightarrow> (Inl e, p')
                     | Inr (bandpower, occupancy) \<Rightarrow>
                         (Inr \<lparr>frame_id = iq_frame_id frame,
                               timestamp_ns = iq_timestamp_ns frame,
                               lat_deg = (if gps_fixes p' \<noteq> [] then Some (gps_lat_deg (last (gps_fixes p'))) else None),
                               lon_deg = (if gps_fixes p' \<noteq> [] then Some (gps_lon_deg (last (gps_fixes p'))) else None),
                               freq_bins_hz = freq_bins,
                               psd_db = psd,
                               psd_smoothed_db = psd_smoothed,
                               noise_floor_db = noise_floor,
                               bandpower_db = bandpower,
                               occupancy_pct = occupancy,
                               anomaly_score = None\<rparr>, p')))))"

definition reset :: "DSPPipeline \<Rightarrow> DSPPipeline" where
  "reset p = p\<lparr>ema_filter := EMAFilter_reset (ema_filter p), gps_fixes := []\<rparr>"

text \<open>
  A history of calls on one pipeline, and the fix a reader of the history expects on the
  next record: the fix of the last \<open>AddFix\<close> since the last \<open>Reset\<close>, if there is one.
\<close>

datatype pipeline_call = AddFix GPSFix | Process IQFrame | Reset

fun run_call :: "DSPPipeline \<Rightarrow> pipeline_call \<Rightarrow> DSPPipeline" where
  "run_call p (AddFix fix) = add_gps_fix p fix"
| "run_call p (Process frame) = snd (process_frame p frame)"
| "run_call p Reset = reset p"

definition run_calls :: "DSPPipeline \<Rightarrow> pipeline_call list \<Rightarrow> DSPPipeline" where
  "run_calls p calls = foldl run_call p calls"

fun latest_fix :: "pipeline_call list \<Rightarrow> GPSFix option \<Rightarrow> GPSFix option" where
  "latest_fix [] acc = acc"
| "latest_fix (AddFix fix # calls) acc = latest_fix calls (Some fix)"
| "latest_fix (Process frame # calls) acc = latest_fix calls acc"
| "latest_fix (Reset # calls) acc = latest_fix calls None"

text \<open>
  The states in which a frame of the right length is processed without an error: the window
  has more than one sample, the percentile is in range and the state of the filter, when
  set, is as long as the window.
\<close>

definition pipeline_ok :: "DSPPipeline \<Rightarrow> bool" where
  "pipeline_ok p =
     (1 < length (window p) \<and> 0 \<le> noise_floor_percentile p \<and> noise_floor_percentile p \<le> 100
      \<and> (\<forall>s. ema_state (ema_filter p) = Some s \<longrightarrow> length s = length (window p)))"

definition fix_view :: "DSPPipeline \<Rightarrow> GPSFix option" where
  "fix_view p = (if gps_fixes p = [] then None else Some (last (gps_fixes p)))"

subsection \<open>Configuration validation (common/config.py)\<close>

text \<open>The fields that \<^verbatim>\<open>Config.validate\<close> reads.\<close>

record Config =
  cfg_fft_size :: int
  cfg_window_type :: string
  cfg_smoothing_factor :: real
  cfg_noise_floor_percentile :: real
  cfg_bands :: "Band list"
  cfg_tile_size_meters :: real
  cfg_update_rate_hz :: real

definition validate :: "Config \<Rightarrow> error + unit" where
  "validate c =
     (if and (cfg_fft_size c) (cfg_fft_size c - 1) \<noteq> 0 then Inl InvalidFFTSize
      else if cfg_window_type c \<notin> set [''hann'', ''hamming'', ''blackman''] then Inl InvalidWindowType
      else if \<not> (0 < cfg_smoothing_factor c \<and> cfg_smoothing_factor c \<le> 1) then Inl InvalidSmoothing
      else if cfg_tile_size_meters c \<le> 0 then Inl InvalidTileSize
      else if cfg_update_rate_hz c \<le> 0 then Inl InvalidUpdateRate
      else Inr ())"

definition create_pipeline_from_config :: "Config \<Rightarrow> error + DSPPipeline" where
  "create_pipeline_from_config c =
     DSPPipeline_init (nat (cfg_fft_size c)) (cfg_window_type c) (cfg_smoothing_factor c)
       (cfg_noise_floor_percentile c) (cfg_bands c)"

subsection \<open>The EMA filter on a store of arrays\<close>

text \<open>
  \<^verbatim>\<open>EMAFilter.update\<close> receives and returns references to arrays. Here the arrays live in
  a store, a reference is an address, \<^verbatim>\<open>new_value.copy()\<close> and each arithmetic result
  allocate a fresh array, and \<^verbatim>\<open>self._state\<close> holds an address.
\<close>

type_synonym addr = nat

record store =
  arrays :: "addr \<Rightarrow> real list option"
  next_addr :: addr

record EMAFilter_ref =
  ref_alpha :: real
  ref_size :: nat
  ref_state :: "addr option"

definition alloc :: "store \<Rightarrow> real list \<Rightarrow> addr \<times> store" where
  "alloc h v = (next_addr h, h\<lparr>arrays := (arrays h)(next_addr h \<mapsto> v), next_addr := Suc (next_addr h)\<rparr>)"

definition store_ok :: "store \<Rightarrow> bool" where
  "store_ok h = (\<forall>a. arrays h a \<noteq> None \<longrightarrow> a < next_addr h)"

text \<open>
  The result is the returned reference, the store and the filter after the call; \<open>None\<close>
  stands for a dangling reference, which Python cannot produce.
\<close>

definition EMAFilter_update_ref ::
  "store \<Rightarrow> EMAFilter_ref \<Rightarrow> addr \<Rightarrow> ((error + addr) \<times> store \<times> EMAFilter_ref) option" where
  "EMAFilter_update_ref h f new_value =
     (case arrays h new_value of
        None \<Rightarrow> None
      | Some x \<Rightarrow>
          (case ref_state f of
             None \<Rightarrow>
               (let (a, h') = alloc h x
                in Some (Inr a, h', f\<lparr>ref_state := Some a\<rparr>))
           | Some sa \<Rightarrow>
               (case arrays h sa of
                  None \<Rightarrow> None
                | Some state \<Rightarrow>
                    (let (t1, h1) = alloc h (map (\<lambda>v. ref_alpha f * v) x);
                         (t2, h2) = alloc h1 (map (\<lambda>s. (1 - ref_alpha f) * s) state)
                     in case broadcast2 (+) (map (\<lambda>v. ref_alpha f * v) x)
                                            (map (\<lambda>s. (1 - ref_alpha f) * s) state) of
                          Inl e \<Rightarrow> Some (Inl e, h2, f)
                        | Inr y \<Rightarrow>
                            (let (a, h3) = alloc h2 y
                             in Some (Inr a, h3, f\<lparr>ref_state := Some a\<rparr>))))))"

text \<open>An in-place write by the caller into an array it holds.\<close>

definition write_array :: "store \<Rightarrow> addr \<Rightarrow> real list \<Rightarrow> store" where
  "write_array h a v = h\<lparr>arrays := (arrays h)(a \<mapsto> v)\<rparr>"

text \<open>The filter that a filter on the store stands for: its state read through the store.\<close>

definition abs_filter :: "store \<Rightarrow> EMAFilter_ref \<Rightarrow> EMAFilter" where
  "abs_filter h f =
     \<lparr>alpha = ref_alpha f, ema_size = ref_size f,
      ema_state = (case ref_state f of None \<Rightarrow> None | Some a \<Rightarrow> arrays h a)\<rparr>"

subsection \<open>Arithmetic of the tile grid\<close>

text \<open>
  Each floating-point operation of \<^verbatim>\<open>geo/tiling.py\<close> is the exact result passed through
  \<open>rnd\<close>; \<open>cos_deg\<close> is \<^verbatim>\<open>np.cos(np.radians(x))\<close>. In
  \<open>binary64\<close> every operation rounds to the nearest number with a 53-bit significand, ties to
  even (overflow and subnormal numbers are not modelled: the magnitudes of a grid are far
  from both); its cosine is taken as correctly rounded, on which no result below depends.
\<close>

record arith =
  rnd :: "real \<Rightarrow> real"
  cos_deg :: "real \<Rightarrow> real"

definition round_half_even :: "real \<Rightarrow> int" where
  "round_half_even m =
     (let f = \<lfloor>m\<rfloor>; d = m - of_int f
      in if d < 1 / 2 then f else if 1 / 2 < d then f + 1 else if even f then f else f + 1)"

definition round53 :: "real \<Rightarrow> real" where
  "round53 x =
     (if x = 0 then 0
      else let e = \<lfloor>log 2 \<bar>x\<bar>\<rfloor>; u = 2 powi (e - 52)
           in sgn x * of_int (round_half_even (\<bar>x\<bar> / u)) * u)"

definition binary64 :: arith where
  "binary64 = \<lparr>rnd = round53, cos_deg = (\<lambda>x. round53 (cos (round53 (x * round53 (pi / 180)))))\<rparr>"

text \<open>Python's \<^verbatim>\<open>int(x)\<close> on a float truncates toward zero.\<close>

definition trunc :: "real \<Rightarrow> int" where
  "trunc x = (if 0 \<le> x then \<lfloor>x\<rfloor> else \<lceil>x\<rceil>)"

subsection \<open>Tiles (geo/tiling.py)\<close>

text \<open>The decimal text of an integer, as an f-string prints it.\<close>

fun str_nat :: "nat \<Rightarrow> string" where
  "str_nat n = (if n < 10 then [''0123456789'' ! n] else str_nat (n div 10) @ [''0123456789'' ! (n mod 10)])"

declare str_nat.simps [simp del]

definition str_int :: "int \<Rightarrow> string" where
  "str_int i = (if i < 0 then CHR ''-'' # str_nat (nat (- i)) else str_nat (nat i))"

definition tile_id_of :: "int \<Rightarrow> int \<Rightarrow> string" where
  "tile_id_of ix iy = ''tile_x'' @ str_int ix @ ''_y'' @ str_int iy"

record Tile =
  tile_id :: string
  tile_x :: int
  tile_y :: int
  tile_lat_min :: real
  tile_lat_max :: real
  tile_lon_min :: real
  tile_lon_max :: real

record TileGrid =
  center_lat :: real
  center_lon :: real
  tile_size_meters :: real
  grid_extent_meters :: real
  lat_deg_per_m :: real
  lon_deg_per_m :: real
  lat_min :: real
  lat_max :: real
  lon_min :: real
  lon_max :: real
  tile_size_lat :: real
  tile_size_lon :: real
  num_tiles_x :: int
  num_tiles_y :: int
  tiles :: "Tile list"

definition make_tile :: "arith \<Rightarrow> real \<Rightarrow> real \<Rightarrow> real \<Rightarrow> real \<Rightarrow> nat \<Rightarrow> nat \<Rightarrow> Tile" where
  "make_tile A lo_lon lo_lat size_lon size_lat ix iy =
     (let t_lon_min = rnd A (lo_lon + rnd A (real ix * size_lon));
          t_lon_max = rnd A (t_lon_min + size_lon);
          t_lat_min = rnd A (lo_lat + rnd A (real iy * size_lat));
          t_lat_max = rnd A (t_lat_min + size_lat)
      in \<lparr>tile_id = tile_id_of (int ix) (int iy), tile_x = int ix, tile_y = int iy,
          tile_lat_min = t_lat_min, tile_lat_max = t_lat_max,
          tile_lon_min = t_lon_min, tile_lon_max = t_lon_max\<rparr>)"

definition generate_tiles ::
  "arith \<Rightarrow> real \<Rightarrow> real \<Rightarrow> real \<Rightarrow> real \<Rightarrow> int \<Rightarrow> int \<Rightarrow> Tile list" where
  "generate_tiles A lo_lon lo_lat size_lon size_lat nx ny =
     concat (map (\<lambda>ix. map (\<lambda>iy. make_tile A lo_lon lo_lat size_lon size_lat ix iy) [0..<nat ny])
                 [0..<nat nx])"

text \<open>
  \<^verbatim>\<open>TileGrid.__init__\<close>. The division \<^verbatim>\<open>grid_extent_meters / tile_size_meters\<close> of
  two Python floats raises for a tile size of 0.
\<close>

definition TileGrid_init :: "arith \<Rightarrow> real \<Rightarrow> real \<Rightarrow> real \<Rightarrow> real \<Rightarrow> error + TileGrid" where
  "TileGrid_init A clat clon ts ext =
     (let latd = rnd A (1 / 111000);
          lond = rnd A (1 / rnd A (88000 * cos_deg A clat));
          half_extent_lat = rnd A (rnd A (ext / 2) * latd);
          half_extent_lon = rnd A (rnd A (ext / 2) * lond);
          la_min = rnd A (clat - half_extent_lat);
          la_max = rnd A (clat + half_extent_lat);
          lo_min = rnd A (clon - half_extent_lon);
          lo_max = rnd A (clon + half_extent_lon);
          size_lat = rnd A (ts * latd);
          size_lon = rnd A (ts * lond)
      in if ts = 0 then Inl ZeroDivision
         else let n = \<lceil>rnd A (ext / ts)\<rceil>
              in Inr \<lparr>center_lat = clat, center_lon = clon, tile_size_meters = ts,
                      grid_extent_meters = ext, lat_deg_per_m = latd, lon_deg_per_m = lond,
                      lat_min = la_min, lat_max = la_max, lon_min = lo_min, lon_max = lo_max,
                      tile_size_lat = size_lat, tile_size_lon = size_lon,
                      num_tiles_x = n, num_tiles_y = n,
                      tiles = generate_tiles A lo_min la_min size_lon size_lat n n\<rparr>)"

text \<open>The dictionary \<^verbatim>\<open>tile_lookup\<close>: a later tile with the same id replaces an earlier one.\<close>

definition tile_lookup :: "TileGrid \<Rightarrow> string \<Rightarrow> Tile option" where
  "tile_lookup g = map_of (rev (map (\<lambda>t. (tile_id t, t)) (tiles g)))"

definition get_tile :: "arith \<Rightarrow> TileGrid \<Rightarrow> real \<Rightarrow> real \<Rightarrow> int \<times> int \<times> string" where
  "get_tile A g lat lon =
     (if \<not> (lat_min g \<le> lat \<and> lat \<le> lat_max g \<and> lon_min g \<le> lon \<and> lon \<le> lon_max g)
      then (- 1, - 1, ''out_of_bounds'')
      else let ix = trunc (rnd A (rnd A (lon - lon_min g) / tile_size_lon g));
               iy = trunc (rnd A (rnd A (lat - lat_min g) / tile_size_lat g));
               ix' = max 0 (min ix (num_tiles_x g - 1));
               iy' = max 0 (min iy (num_tiles_y g - 1))
           in (ix', iy', tile_id_of ix' iy'))"

text \<open>\<^verbatim>\<open>get_tile_center\<close>: the midpoint of the bounds of the tile with the given id.\<close>

definition tile_center :: "arith \<Rightarrow> Tile \<Rightarrow> real \<times> real" where
  "tile_center A t =
     (rnd A (rnd A (tile_lat_min t + tile_lat_max t) / 2),
      rnd A (rnd A (tile_lon_min t + tile_lon_max t) / 2))"

definition get_tile_center :: "arith \<Rightarrow> TileGrid \<Rightarrow> string \<Rightarrow> error + real \<times> real" where
  "get_tile_center A g tid =
     (case tile_lookup g tid of None \<Rightarrow> Inl UnknownTile | Some t \<Rightarrow> Inr (tile_center A t))"

subsection \<open>Tile aggregation (geo/aggregate.py)\<close>

text \<open>
  A buffered row. The columns \<^verbatim>\<open>bandpower_db_i\<close> and \<^verbatim>\<open>occupancy_pct_i\<close> are written in
  pairs for \<open>i = 0, 1, ...\<close>, so a row holds them as a list of pairs; a row has the column
  of index \<open>i\<close> exactly when the list is longer than \<open>i\<close>.
\<close>

record Row =
  row_frame_id :: int
  row_timestamp_ns :: int
  row_lat_deg :: real
  row_lon_deg :: real
  row_tile_id :: string
  row_tile_x :: int
  row_tile_y :: int
  row_noise_floor_db :: real
  row_bands :: "(real \<times> real) list"
  row_anomaly_score :: "real option"

text \<open>In a summary, \<open>None\<close> in a band list is the NaN of an aggregate over no value.\<close>

record TileMetrics =
  tm_tile_id :: string
  tm_tile_x :: int
  tm_tile_y :: int
  tm_lat_min :: real
  tm_lat_max :: real
  tm_lon_min :: real
  tm_lon_max :: real
  frame_count :: int
  timestamp_min_ns :: int
  timestamp_max_ns :: int
  bandpower_mean_db :: "real option list"
  bandpower_max_db :: "real option list"
  occupancy_mean_pct :: "real option list"
  anomaly_score_max :: "real option"

record TileAggregator =
  tile_grid :: TileGrid
  aggregate_window_frames :: int
  num_bands :: nat
  frame_buffer :: "Row list"

definition TileAggregator_init :: "TileGrid \<Rightarrow> int \<Rightarrow> nat \<Rightarrow> TileAggregator" where
  "TileAggregator_init g w n =
     \<lparr>tile_grid = g, aggregate_window_frames = w, num_bands = n, frame_buffer = []\<rparr>"

definition add_frame :: "arith \<Rightarrow> TileAggregator \<Rightarrow> FrameFeatures \<Rightarrow> TileAggregator" where
  "add_frame A a features =
     (case (lat_deg features, lon_deg features) of
        (Some lat, Some lon) \<Rightarrow>
          (case get_tile A (tile_grid a) lat lon of
             (tx, ty, tid) \<Rightarrow>
               if tid = ''out_of_bounds'' then a
               else a\<lparr>frame_buffer := frame_buffer a @
                        [\<lparr>row_frame_id = frame_id features,
                          row_timestamp_ns = timestamp_ns features,
                          row_lat_deg = lat, row_lon_deg = lon,
                          row_tile_id = tid, row_tile_x = tx, row_tile_y = ty,
                          row_noise_floor_db = noise_floor_db features,
                          row_bands = zip (bandpower_db features) (occupancy_pct features),
                          row_anomaly_score = anomaly_score features\<rparr>]\<rparr>)
      | _ \<Rightarrow> a)"

definition should_aggregate :: "TileAggregator \<Rightarrow> bool" where
  "should_aggregate a = (int (length (frame_buffer a)) \<ge> aggregate_window_frames a)"

text \<open>
  The data frame built from the buffer has a column for every key that some row has; a row
  without the key holds a null there. The aggregates of a group skip nulls.
\<close>

definition has_column :: "Row list \<Rightarrow> nat \<Rightarrow> bool" where
  "has_column rows i = (\<exists>r\<in>set rows. i < length (row_bands r))"

definition column_values :: "((real \<times> real) \<Rightarrow> real) \<Rightarrow> Row list \<Rightarrow> nat \<Rightarrow> real list" where
  "column_values sel rows i =
     map (\<lambda>r. sel (row_bands r ! i)) (filter (\<lambda>r. i < length (row_bands r)) rows)"

definition agg_mean :: "real list \<Rightarrow> real option" where
  "agg_mean vs = (if vs = [] then None else Some (sum_list vs / real (length vs)))"

definition agg_max :: "real list \<Rightarrow> real option" where
  "agg_max vs = (if vs = [] then None else Some (fold max (tl vs) (hd vs)))"

definition agg_min_int :: "int list \<Rightarrow> int" where
  "agg_min_int vs = fold min (tl vs) (hd vs)"

definition agg_max_int :: "int list \<Rightarrow> int" where
  "agg_max_int vs = fold max (tl vs) (hd vs)"

text \<open>The summary of one group; \<open>rows\<close> are the buffered rows of tile \<open>t\<close>, never empty.\<close>

definition tile_metric :: "nat \<Rightarrow> Tile \<Rightarrow> string \<Rightarrow> Row list \<Rightarrow> TileMetrics" where
  "tile_metric n t tid rows =
     \<lparr>tm_tile_id = tid,
      tm_tile_x = row_tile_x (hd rows),
      tm_tile_y = row_tile_y (hd rows),
      tm_lat_min = tile_lat_min t, tm_lat_max = tile_lat_max t,
      tm_lon_min = tile_lon_min t, tm_lon_max = tile_lon_max t,
      frame_count = int (length rows),
      timestamp_min_ns = agg_min_int (map row_timestamp_ns rows),
      timestamp_max_ns = agg_max_int (map row_timestamp_ns rows),
      bandpower_mean_db = map (\<lambda>i. agg_mean (column_values fst rows i)) [0..<n],
      bandpower_max_db = map (\<lambda>i. agg_max (column_values fst rows i)) [0..<n],
      occupancy_mean_pct = map (\<lambda>i. agg_mean (column_values snd rows i)) [0..<n],
      anomaly_score_max = agg_max (concat (map (\<lambda>r. case row_anomaly_score r of None \<Rightarrow> [] | Some s \<Rightarrow> [s]) rows))\<rparr>"

text \<open>
  \<^verbatim>\<open>TileAggregator.aggregate\<close>. The aggregation raises when it names a column that the
  data frame does not have, before the buffer is cleared. The groups are listed in the order
  in which their tiles last occur in the buffer; the source leaves the order open.
\<close>

definition aggregate :: "TileAggregator \<Rightarrow> (error + TileMetrics list) \<times> TileAggregator" where
  "aggregate a =
     (if length (frame_buffer a) = 0 then (Inr [], a)
      else if \<exists>i\<in>set [0..<num_bands a]. \<not> has_column (frame_buffer a) i then (Inl MissingColumn, a)
      else (Inr (concat (map (\<lambda>tid. case tile_lookup (tile_grid a) tid of
                                        None \<Rightarrow> []
                                      | Some t \<Rightarrow>
                                          [tile_metric (num_bands a) t tid
                                             (filter (\<lambda>r. row_tile_id r = tid) (frame_buffer a))])
                              (remdups (map row_tile_id (frame_buffer a))))),
            a\<lparr>frame_buffer := []\<rparr>))"

definition flush :: "TileAggregator \<Rightarrow> (error + TileMetrics list) \<times> TileAggregator" where
  "flush a = aggregate a"

subsection \<open>Example inputs\<close>

definition frame2 :: IQFrame where
  "frame2 = \<lparr>iq_frame_id = 7, iq_timestamp_ns = 5000000000, center_freq_hz = 150000000,
              sample_rate_sps = 1000000, gain_db = None, iq = [1, \<i>]\<rparr>"

definition fix_a :: GPSFix where
  "fix_a = \<lparr>gps_timestamp_ns = 0, gps_lat_deg = 37, gps_lon_deg = - 122,
            alt_m = None, heading_deg = None, speed_mps = None\<rparr>"

definition fix_b :: GPSFix where
  "fix_b = \<lparr>gps_timestamp_ns = 1000, gps_lat_deg = 38, gps_lon_deg = - 121,
            alt_m = None, heading_deg = None, speed_mps = None\<rparr>"

definition vhf :: Band where
  "vhf = \<lparr>band_name = ''VHF'', start_hz = 30000000, end_hz = 300000000\<rparr>"

definition pipeline2 :: DSPPipeline where
  "pipeline2 = projr (DSPPipeline_init 2 ''hann'' (1 / 2) 10 [vhf])"

definition frame1 :: IQFrame where
  "frame1 = frame2\<lparr>iq := [1]\<rparr>"

definition frame3 :: IQFrame where
  "frame3 = frame2\<lparr>iq := [1, \<i>, - 1]\<rparr>"

definition store0 :: store where
  "store0 = \<lparr>arrays = [0 \<mapsto> [1, 2]], next_addr = 1\<rparr>"

definition filter_ref0 :: EMAFilter_ref where
  "filter_ref0 = \<lparr>ref_alpha = 1 / 2, ref_size = 2, ref_state = None\<rparr>"

definition config0 :: Config where
  "config0 = \<lparr>cfg_fft_size = 4, cfg_window_type = ''hann'', cfg_smoothing_factor = 2,
               cfg_noise_floor_percentile = 10, cfg_bands = [],
               cfg_tile_size_meters = 100, cfg_update_rate_hz = 10\<rparr>"



definition grid0 :: TileGrid where
  "grid0 = projr (TileGrid_init binary64 0 0 100 1000)"


text \<open>Records at a position inside \<open>grid0\<close>, with no band, one band and three bands.\<close>

definition features0 :: FrameFeatures where
  "features0 = \<lparr>frame_id = 1, timestamp_ns = 1000, lat_deg = Some (1 / 1000), lon_deg = Some (- 1 / 1000),
                 freq_bins_hz = [], psd_db = [], psd_smoothed_db = [], noise_floor_db = - 90,
                 bandpower_db = [], occupancy_pct = [], anomaly_score = None\<rparr>"

definition features1 :: FrameFeatures where
  "features1 = features0\<lparr>bandpower_db := [1], occupancy_pct := [10]\<rparr>"

definition features3 :: FrameFeatures where
  "features3 = features0\<lparr>bandpower_db := [1, 2, 3], occupancy_pct := [10, 20, 30]\<rparr>"

definition agg1 :: TileAggregator where
  "agg1 = TileAggregator_init grid0 10 1"

definition agg2 :: TileAggregator where
  "agg2 = TileAggregator_init grid0 10 2"

section \<open>Properties\<close>

subsection \<open>Spectral estimation\<close>

lemma length_fftshift: "length (fftshift xs) = length xs"
  by (simp add: fftshift_def Let_def)

lemma length_fftfreq: "length (fftfreq n d) = n"
  by (simp add: fftfreq_def)

lemma set_fftshift: "set (fftshift xs) = set xs"
proof -
  have "set (drop k xs @ take k xs) = set (take k xs @ drop k xs)" for k
    by (simp only: set_append Un_commute)
  then show ?thesis by (simp add: fftshift_def Let_def)
qed

lemma nth_fftshift:
  assumes "j < length xs"
  shows "fftshift xs ! j =
           (if j < length xs div 2 then xs ! (j + (length xs - length xs div 2))
            else xs ! (j - length xs div 2))"
  using assms by (auto simp: fftshift_def Let_def nth_append add.commute)

lemma nth_fftshift_fftfreq:
  assumes "j < n"
  shows "fftshift (fftfreq n d) ! j = (real j - real (n div 2)) * (1 / (real n * d))"
proof (cases "j < n div 2")
  case True
  then have "\<not> j + (n - n div 2) \<le> (n - 1) div 2" by linarith
  moreover have "real (j + (n - n div 2)) - real n = real j - real (n div 2)"
    using True by (simp add: of_nat_diff)
  ultimately show ?thesis
    using assms True by (simp add: nth_fftshift length_fftfreq fftfreq_def)
next
  case False
  then have "j - n div 2 \<le> (n - 1) div 2" using assms by linarith
  moreover have "real (j - n div 2) = real j - real (n div 2)"
    using False by (simp add: of_nat_diff)
  ultimately show ?thesis
    using assms False by (simp add: nth_fftshift length_fftfreq fftfreq_def)
qed

lemma sorted_fftshift_fftfreq:
  assumes "0 < d"
  shows "sorted (fftshift (fftfreq n d))"
proof -
  have "fftshift (fftfreq n d) ! i \<le> fftshift (fftfreq n d) ! j" if "i \<le> j" "j < n" for i j
  proof -
    have "0 \<le> 1 / (real n * d)" using assms by simp
    moreover have "real i - real (n div 2) \<le> real j - real (n div 2)" using that by simp
    ultimately show ?thesis
      using that by (simp only: nth_fftshift_fftfreq le_less_trans[OF that] mult_right_mono)
  qed
  then show ?thesis
    by (simp add: sorted_iff_nth_mono length_fftshift length_fftfreq)
qed

lemma linear_to_db_floor:
  assumes "x \<in> set (linear_to_db lin floor_db)"
  shows "floor_db \<le> x"
proof -
  obtain y where x: "x = 10 * log 10 (max y (10 powr (floor_db / 10)))"
    using assms by (auto simp: linear_to_db_def Let_def)
  have pos: "0 < 10 powr (floor_db / 10)" by simp
  have "log 10 (10 powr (floor_db / 10)) \<le> log 10 (max y (10 powr (floor_db / 10)))"
    using pos by (subst log_le_cancel_iff) (auto simp: less_max_iff_disj)
  then have "floor_db / 10 \<le> log 10 (max y (10 powr (floor_db / 10)))" by simp
  then show ?thesis using x by simp
qed

lemma length_linear_to_db: "length (linear_to_db lin floor_db) = length lin"
  by (simp add: linear_to_db_def Let_def)

lemma length_dft: "length (dft xs) = length xs"
  by (simp add: dft_def)

lemma compute_fft_psd_value:
  assumes "length (iq frame) = length w" "iq frame \<noteq> []" "sample_rate_sps frame \<noteq> 0"
  shows "\<exists>lin. length lin = length w \<and>
           compute_fft_psd frame w c =
             Inr (fftshift (fftfreq (length w) (1 / sample_rate_sps frame)),
                  linear_to_db lin (- 120), lin)"
proof -
  have "w \<noteq> []" using assms by auto
  then show ?thesis
    using assms
    by (simp add: compute_fft_psd_def broadcast2_def compute_fft_def compute_psd_def Let_def
        length_dft length_fftshift)
qed

text \<open>
  Claim C1. For a frame with as many samples as the window (the configured FFT size), a
  positive sample rate and a positive window power correction, \<open>compute_fft_psd\<close> returns
  frequency bins, a dB PSD and a linear PSD, each as long as the frame; the frequency bins
  are non-decreasing after the shift; and every dB value is at least the floor of -120 dB,
  as is every value of \<open>linear_to_db\<close> for any other floor.
\<close>

theorem spectral_estimate_shape:
  assumes "length (iq frame) = length w" "iq frame \<noteq> []" "0 < sample_rate_sps frame" "0 < c"
  shows "\<exists>fb db lin. compute_fft_psd frame w c = Inr (fb, db, lin)
           \<and> length fb = length (iq frame) \<and> length db = length (iq frame)
           \<and> length lin = length (iq frame)
           \<and> sorted fb \<and> (\<forall>x\<in>set db. - 120 \<le> x)
           \<and> (\<forall>xs floor_db. \<forall>x\<in>set (linear_to_db xs floor_db). floor_db \<le> x)"
proof -
  obtain lin where lin: "length lin = length w"
    "compute_fft_psd frame w c =
       Inr (fftshift (fftfreq (length w) (1 / sample_rate_sps frame)), linear_to_db lin (- 120), lin)"
    using compute_fft_psd_value[of frame w c] assms by auto
  have "sorted (fftshift (fftfreq (length w) (1 / sample_rate_sps frame)))"
    using assms(3) by (intro sorted_fftshift_fftfreq) simp
  moreover have "\<forall>xs floor_db. \<forall>x\<in>set (linear_to_db xs floor_db). floor_db \<le> x"
    using linear_to_db_floor by blast
  ultimately show ?thesis
    using lin assms(1) by (simp add: length_fftshift length_fftfreq length_linear_to_db)
qed

theorem spectral_estimate_shape_witness:
  "length (iq frame2) = length [0, 1 :: real] \<and> iq frame2 \<noteq> [] \<and> 0 < sample_rate_sps frame2
   \<and> (0 :: real) < 1
   \<and> (\<exists>fb db lin. compute_fft_psd frame2 [0, 1] 1 = Inr (fb, db, lin)
         \<and> length fb = 2 \<and> length db = 2 \<and> length lin = 2 \<and> sorted fb
         \<and> (\<forall>x\<in>set db. - 120 \<le> x))"
proof -
  have h: "length (iq frame2) = length [0, 1 :: real]" "iq frame2 \<noteq> []"
    "0 < sample_rate_sps frame2" "(0 :: real) < 1"
    by (simp_all add: frame2_def)
  have l: "length (iq frame2) = 2" by (simp add: frame2_def)
  from spectral_estimate_shape[OF h] obtain fb db lin where
    "compute_fft_psd frame2 [0, 1] 1 = Inr (fb, db, lin)"
    "length fb = length (iq frame2)" "length db = length (iq frame2)"
    "length lin = length (iq frame2)" "sorted fb" "\<forall>x\<in>set db. - 120 \<le> x"
    by blast
  then show ?thesis using h l by (intro conjI exI[of _ fb] exI[of _ db] exI[of _ lin]) simp_all
qed

subsection \<open>The pipeline: helper facts\<close>

lemma compute_fft_psd_returns:
  assumes "length (iq frame) = length w \<or> length (iq frame) = 1" "w \<noteq> []"
    "sample_rate_sps frame \<noteq> 0"
  shows "\<exists>lin. length lin = length w \<and>
           compute_fft_psd frame w c =
             Inr (fftshift (fftfreq (length w) (1 / sample_rate_sps frame)),
                  linear_to_db lin (- 120), lin)"
  using assms
  by (auto simp: compute_fft_psd_def broadcast2_def compute_fft_def compute_psd_def Let_def
      length_dft length_fftshift)

lemma compute_fft_psd_lengths:
  assumes "compute_fft_psd frame w c = Inr (fb, db, lin)"
  shows "length fb = length db \<and> length fb = length lin"
  using assms
  by (auto simp: compute_fft_psd_def compute_fft_def compute_psd_def Let_def
      length_dft length_fftshift length_fftfreq length_linear_to_db
      split: sum.splits if_splits)

lemma compute_fft_psd_mismatch:
  assumes "length (iq frame) \<noteq> length w" "length (iq frame) \<noteq> 1" "length w \<noteq> 1"
  shows "compute_fft_psd frame w c = Inl ShapeMismatch"
  using assms by (simp add: compute_fft_psd_def broadcast2_def)

lemma extract_band_features_returns:
  assumes "length fb = length db" "length fb = length lin"
  shows "\<exists>bp occ. extract_band_features fb db lin bs cf nf = Inr (bp, occ)
           \<and> length bp = length bs \<and> length occ = length bs"
proof (induction bs)
  case Nil
  then show ?case by simp
next
  case (Cons b bs)
  then obtain bp occ where "extract_band_features fb db lin bs cf nf = Inr (bp, occ)"
    "length bp = length bs" "length occ = length bs" by blast
  then show ?case
    using assms
    by (simp add: compute_bandpower_def compute_occupancy_def mask_select_def band_mask_def Let_def)
qed


lemma percentile_returns:
  assumes "a \<noteq> []" "0 \<le> q" "q \<le> 100"
  shows "\<exists>v. percentile a q = Inr v"
  using assms by (simp add: percentile_def Let_def)

lemma EMAFilter_update_returns:
  assumes "ema_state f = None \<or> (\<exists>s. ema_state f = Some s \<and> length s = length x)"
  shows "\<exists>y. EMAFilter_update f x = (Inr y, f\<lparr>ema_state := Some y\<rparr>) \<and> length y = length x"
  using assms by (auto simp: EMAFilter_update_def broadcast2_def)

lemma process_frame_returns:
  assumes len: "length (iq frame) = length (window p) \<or> length (iq frame) = 1"
    and w: "window p \<noteq> []" and sr: "sample_rate_sps frame \<noteq> 0"
    and q: "0 \<le> noise_floor_percentile p" "noise_floor_percentile p \<le> 100"
    and st: "ema_state (ema_filter p) = None
             \<or> (\<exists>s. ema_state (ema_filter p) = Some s \<and> length s = length (window p))"
  shows "\<exists>r. process_frame p frame =
               (Inr r, p\<lparr>ema_filter := (ema_filter p)\<lparr>ema_state := Some (psd_smoothed_db r)\<rparr>\<rparr>)
             \<and> length (psd_smoothed_db r) = length (window p)"
proof -
  obtain lin where lin: "length lin = length (window p)"
    "compute_fft_psd frame (window p) (window_power_correction p) =
       Inr (fftshift (fftfreq (length (window p)) (1 / sample_rate_sps frame)),
            linear_to_db lin (- 120), lin)"
    using compute_fft_psd_returns[OF len w sr] by blast
  let ?fb = "fftshift (fftfreq (length (window p)) (1 / sample_rate_sps frame))"
  let ?db = "linear_to_db lin (- 120)"
  have ldb: "length ?db = length (window p)" using lin by (simp add: length_linear_to_db)
  obtain y where y: "EMAFilter_update (ema_filter p) ?db
                       = (Inr y, (ema_filter p)\<lparr>ema_state := Some y\<rparr>)" "length y = length ?db"
    using EMAFilter_update_returns[of "ema_filter p" ?db] st ldb by auto
  have "y \<noteq> []" using y(2) ldb w by auto
  then obtain nf where nf: "estimate_noise_floor y (noise_floor_percentile p) = Inr nf"
    using percentile_returns q by (auto simp: estimate_noise_floor_def)
  obtain bp occ where bo: "extract_band_features ?fb ?db lin (bands p) (center_freq_hz frame) nf
                             = Inr (bp, occ)"
  proof -
    have "length ?fb = length ?db" "length ?fb = length lin"
      using lin by (simp_all add: length_fftshift length_fftfreq length_linear_to_db)
    from extract_band_features_returns[OF this, of "bands p" "center_freq_hz frame" nf] that
    show ?thesis by blast
  qed
  show ?thesis
    using lin(2) y nf bo ldb by (auto simp: process_frame_def Let_def)
qed

lemma gps_fixes_process_frame: "gps_fixes (snd (process_frame p frame)) = gps_fixes p"
  by (auto simp: process_frame_def Let_def split: sum.splits prod.splits)

lemma fix_view_add: "fix_view (add_gps_fix p fix) = Some fix"
  by (simp add: fix_view_def add_gps_fix_def Let_def)

lemma fix_view_process: "fix_view (snd (process_frame p frame)) = fix_view p"
  by (simp add: fix_view_def gps_fixes_process_frame)

lemma fix_view_reset: "fix_view (reset p) = None"
  by (simp add: fix_view_def reset_def)

lemma fix_view_run_calls: "fix_view (run_calls p calls) = latest_fix calls (fix_view p)"
  unfolding run_calls_def
proof (induction calls arbitrary: p)
  case Nil
  then show ?case by simp
next
  case (Cons c calls)
  then show ?case
    by (cases c) (simp_all add: fix_view_add fix_view_process fix_view_reset)
qed

lemma fix_view_init: "DSPPipeline_init n wt a q bs = Inr p \<Longrightarrow> fix_view p = None"
  by (auto simp: DSPPipeline_init_def fix_view_def split: sum.splits)

lemma process_frame_position:
  assumes "process_frame p frame = (Inr r, p')"
  shows "lat_deg r = map_option gps_lat_deg (fix_view p) \<and> lon_deg r = map_option gps_lon_deg (fix_view p)"
  using assms
  by (auto simp: process_frame_def Let_def fix_view_def split: sum.splits prod.splits)

lemma length_cosine_window: "length (cosine_window a M) = M"
  by (simp add: cosine_window_def)

lemma DSPPipeline_init_fields:
  assumes "DSPPipeline_init n wt a q bs = Inr p"
  shows "length (window p) = n" "fft_size p = n" "ema_state (ema_filter p) = None"
    "gps_fixes p = []" "noise_floor_percentile p = q" "bands p = bs"
    "smoothing_factor p = a" "alpha (ema_filter p) = a"
  using assms
  by (auto simp: DSPPipeline_init_def get_window_def length_cosine_window EMAFilter_init_def
      split: if_splits)

lemma pipeline2_init: "DSPPipeline_init 2 ''hann'' (1 / 2) 10 [vhf] = Inr pipeline2"
  by (simp add: pipeline2_def DSPPipeline_init_def get_window_def)

lemma window_process_frame: "window (snd (process_frame p frame)) = window p"
  by (auto simp: process_frame_def Let_def split: sum.splits prod.splits)

lemma window_run_calls: "window (run_calls p calls) = window p"
  unfolding run_calls_def
proof (induction calls arbitrary: p)
  case Nil
  then show ?case by simp
next
  case (Cons c calls)
  then show ?case
    by (cases c) (simp_all add: window_process_frame add_gps_fix_def reset_def Let_def)
qed

lemma pipeline2_first_frame:
  assumes "length (iq frame) = 2 \<or> length (iq frame) = 1" "sample_rate_sps frame \<noteq> 0"
  shows "\<exists>r. process_frame pipeline2 frame =
            (Inr r, pipeline2\<lparr>ema_filter := (ema_filter pipeline2)\<lparr>ema_state := Some (psd_smoothed_db r)\<rparr>\<rparr>)"
proof -
  note f = DSPPipeline_init_fields[OF pipeline2_init]
  have "window pipeline2 \<noteq> []" using f(1) by auto
  from process_frame_returns[of frame pipeline2, OF _ this assms(2)] assms(1) f
  show ?thesis by auto
qed

lemma compute_fft_psd_length_db:
  assumes "compute_fft_psd frame w c = Inr (fb, db, lin)" "1 < length w"
  shows "length db = length w"
  using assms
  by (auto simp: compute_fft_psd_def broadcast2_def compute_fft_def compute_psd_def Let_def
      length_dft length_fftshift length_linear_to_db split: sum.splits if_splits)

lemma EMAFilter_update_length:
  assumes "\<forall>s. ema_state f = Some s \<longrightarrow> length s = length x"
  shows "\<forall>s. ema_state (snd (EMAFilter_update f x)) = Some s \<longrightarrow> length s = length x"
  using assms
  by (auto simp: EMAFilter_update_def broadcast2_def split: option.splits)

lemma pipeline_ok_process_frame:
  assumes "pipeline_ok p"
  shows "pipeline_ok (snd (process_frame p frame))"
proof (cases "compute_fft_psd frame (window p) (window_power_correction p)")
  case (Inl e)
  then show ?thesis using assms by (simp add: process_frame_def)
next
  case (Inr t)
  obtain fb db lin where t: "t = (fb, db, lin)" by (cases t)
  have l: "length db = length (window p)"
    using compute_fft_psd_length_db[of frame "window p" _ fb db lin] Inr t assms
    by (simp add: pipeline_ok_def)
  have st: "\<forall>s. ema_state (snd (EMAFilter_update (ema_filter p) db)) = Some s
              \<longrightarrow> length s = length (window p)"
  proof -
    have "\<forall>s. ema_state (ema_filter p) = Some s \<longrightarrow> length s = length db"
      using assms unfolding pipeline_ok_def l by blast
    from EMAFilter_update_length[OF this] show ?thesis unfolding l .
  qed
  have "snd (process_frame p frame) = p\<lparr>ema_filter := snd (EMAFilter_update (ema_filter p) db)\<rparr>"
    using Inr t by (auto simp: process_frame_def Let_def split: sum.splits prod.splits)
  then show ?thesis using assms st by (simp add: pipeline_ok_def)
qed

lemma pipeline_ok_run_calls:
  assumes "pipeline_ok p"
  shows "pipeline_ok (run_calls p calls)"
  using assms unfolding run_calls_def
proof (induction calls arbitrary: p)
  case Nil
  then show ?case by simp
next
  case (Cons c calls)
  have "pipeline_ok (run_call p c)"
  proof (cases c)
    case (AddFix gfix)
    then show ?thesis using Cons.prems by (simp add: pipeline_ok_def add_gps_fix_def Let_def)
  next
    case (Process frame)
    then show ?thesis using Cons.prems by (simp add: pipeline_ok_process_frame)
  next
    case Reset
    then show ?thesis using Cons.prems by (simp add: pipeline_ok_def reset_def EMAFilter_reset_def)
  qed
  then show ?case using Cons.IH by simp
qed

lemma pipeline_ok_init:
  assumes "DSPPipeline_init n wt a q bs = Inr p" "1 < n" "0 \<le> q" "q \<le> 100"
  shows "pipeline_ok p"
  using DSPPipeline_init_fields[OF assms(1)] assms(2-4) by (simp add: pipeline_ok_def)

lemma process_frame_total:
  assumes "pipeline_ok p" "length (iq frame) = length (window p)" "sample_rate_sps frame \<noteq> 0"
  shows "\<exists>r p'. process_frame p frame = (Inr r, p')"
proof -
  have "window p \<noteq> []" using assms(1) by (auto simp: pipeline_ok_def)
  moreover have "ema_state (ema_filter p) = None
     \<or> (\<exists>s. ema_state (ema_filter p) = Some s \<and> length s = length (window p))"
    using assms(1) by (auto simp: pipeline_ok_def split: option.splits)
  ultimately show ?thesis
    using process_frame_returns[of frame p] assms by (auto simp: pipeline_ok_def)
qed



lemma occupancy_example:
  "compute_occupancy [- 1, 0, 1] [- 94, - 94, - 93] \<lparr>band_name = ''B'', start_hz = 9, end_hz = 11\<rparr> 10 (- 100) 6
     = Inr (100 / 3)"
  by (simp add: compute_occupancy_def mask_select_def band_mask_def)

subsection \<open>Position attached to a record\<close>

text \<open>
  Claim C2. On a pipeline built by \<open>DSPPipeline_init\<close> and driven by any history of calls,
  a frame that is processed gets the latitude and longitude of the fix added last since the
  last reset, whatever the timestamps of the fix and of the frame are; when no fix has been
  added since construction or since the last reset, both are absent.
\<close>

theorem position_of_latest_fix:
  assumes "DSPPipeline_init n wt a q bs = Inr p0"
    and "process_frame (run_calls p0 calls) frame = (Inr r, p')"
  shows "lat_deg r = map_option gps_lat_deg (latest_fix calls None)
       \<and> lon_deg r = map_option gps_lon_deg (latest_fix calls None)"
  using process_frame_position[OF assms(2)] fix_view_run_calls[of p0 calls] fix_view_init[OF assms(1)]
  by simp

theorem position_of_latest_fix_witness:
  "DSPPipeline_init 2 ''hann'' (1 / 2) 10 [vhf] = Inr pipeline2
   \<and> (\<exists>r p'. process_frame (run_calls pipeline2 [AddFix fix_a, Process frame2, AddFix fix_b]) frame2 = (Inr r, p')
         \<and> lat_deg r = Some 38 \<and> lon_deg r = Some (- 121))
   \<and> (\<exists>r p'. process_frame (run_calls pipeline2 [AddFix fix_a, Reset]) frame2 = (Inr r, p')
         \<and> lat_deg r = None \<and> lon_deg r = None)"
proof -
  have ok: "pipeline_ok pipeline2"
    using pipeline_ok_init[OF pipeline2_init] by simp
  have len: "length (iq frame2) = length (window (run_calls pipeline2 calls))" for calls
    using DSPPipeline_init_fields(1)[OF pipeline2_init]
    by (simp add: window_run_calls frame2_def)
  have sr: "sample_rate_sps frame2 \<noteq> 0" by (simp add: frame2_def)
  let ?c1 = "[AddFix fix_a, Process frame2, AddFix fix_b]"
  let ?c2 = "[AddFix fix_a, Reset]"
  obtain r1 p1 where 1: "process_frame (run_calls pipeline2 ?c1) frame2 = (Inr r1, p1)"
    using process_frame_total[OF pipeline_ok_run_calls[OF ok] len sr] by blast
  obtain r2 p2 where 2: "process_frame (run_calls pipeline2 ?c2) frame2 = (Inr r2, p2)"
    using process_frame_total[OF pipeline_ok_run_calls[OF ok] len sr] by blast
  from position_of_latest_fix[OF pipeline2_init 1] have "lat_deg r1 = Some 38 \<and> lon_deg r1 = Some (- 121)"
    by (simp add: fix_b_def)
  moreover from position_of_latest_fix[OF pipeline2_init 2] have "lat_deg r2 = None \<and> lon_deg r2 = None"
    by simp
  ultimately show ?thesis using pipeline2_init 1 2 by blast
qed

subsection \<open>Frames of the wrong length\<close>

text \<open>
  Claim C3, as stated, fails: the pipeline does not compare the frame length with the FFT
  size. A frame of one sample is broadcast against the window, is processed without an
  error, and sets the state of the EMA filter.
\<close>

theorem one_sample_frame_not_rejected:
  "length (iq frame1) \<noteq> fft_size pipeline2
   \<and> \<not> isl (fst (process_frame pipeline2 frame1))
   \<and> ema_state (ema_filter (snd (process_frame pipeline2 frame1)))
       \<noteq> ema_state (ema_filter pipeline2)"
proof -
  note f = DSPPipeline_init_fields[OF pipeline2_init]
  obtain r where "process_frame pipeline2 frame1 =
      (Inr r, pipeline2\<lparr>ema_filter := (ema_filter pipeline2)\<lparr>ema_state := Some (psd_smoothed_db r)\<rparr>\<rparr>)"
    using pipeline2_first_frame[of frame1] by (auto simp: frame1_def frame2_def)
  then show ?thesis using f by (simp add: frame1_def)
qed

text \<open>
  Claim C3, amended. When the frame length differs from the FFT size and neither of the two
  is 1, \<open>process_frame\<close> raises the broadcasting error of the window product and leaves
  the pipeline as it was, so that any later frame is processed as if the call had not
  been made.
\<close>

theorem frame_length_mismatch_raises:
  assumes "DSPPipeline_init n wt a q bs = Inr p0" "p = run_calls p0 calls"
    "length (iq frame) \<noteq> n" "length (iq frame) \<noteq> 1" "n \<noteq> 1"
  shows "process_frame p frame = (Inl ShapeMismatch, p)
       \<and> (\<forall>good. process_frame (snd (process_frame p frame)) good = process_frame p good)"
proof -
  have "length (window p) = n"
    using assms(1,2) by (simp add: window_run_calls DSPPipeline_init_fields)
  then have "compute_fft_psd frame (window p) (window_power_correction p) = Inl ShapeMismatch"
    using assms(3-5) by (intro compute_fft_psd_mismatch) simp_all
  then have "process_frame p frame = (Inl ShapeMismatch, p)"
    by (simp add: process_frame_def)
  then show ?thesis by simp
qed

theorem frame_length_mismatch_raises_witness:
  "DSPPipeline_init 2 ''hann'' (1 / 2) 10 [vhf] = Inr pipeline2
   \<and> pipeline2 = run_calls pipeline2 []
   \<and> length (iq frame3) \<noteq> 2 \<and> length (iq frame3) \<noteq> 1 \<and> (2 :: nat) \<noteq> 1
   \<and> process_frame pipeline2 frame3 = (Inl ShapeMismatch, pipeline2)"
proof -
  have h: "pipeline2 = run_calls pipeline2 []" "length (iq frame3) \<noteq> 2"
    "length (iq frame3) \<noteq> 1" "(2 :: nat) \<noteq> 1"
    by (simp_all add: run_calls_def frame3_def frame2_def)
  from frame_length_mismatch_raises[OF pipeline2_init h] show ?thesis using pipeline2_init h by simp
qed

subsection \<open>Noise floor and occupancy\<close>



subsection \<open>The EMA filter\<close>

lemma EMAFilter_update_first:
  assumes "ema_state f = None"
  shows "EMAFilter_update f x = (Inr x, f\<lparr>ema_state := Some x\<rparr>)"
  using assms by (simp add: EMAFilter_update_def)

lemma broadcast2_alpha_one:
  assumes "length s = length x"
  shows "broadcast2 (+) (map (\<lambda>v. 1 * v) x) (map (\<lambda>v. (1 - 1) * v) s) = Inr (x :: real list)"
  using assms by (auto simp: broadcast2_def intro!: nth_equalityI)

lemma EMAFilter_update_alpha_one:
  assumes "alpha f = 1" "ema_state f = None \<or> (\<exists>s. ema_state f = Some s \<and> length s = length x)"
  shows "EMAFilter_update f x = (Inr x, f\<lparr>ema_state := Some x\<rparr>)"
proof (cases "ema_state f")
  case None
  then show ?thesis by (rule EMAFilter_update_first)
next
  case (Some s)
  then have l: "length s = length x" using assms(2) by simp
  show ?thesis
    unfolding EMAFilter_update_def Some assms(1) option.case broadcast2_alpha_one[OF l] by simp
qed

lemma update_all_alpha_one:
  assumes "alpha f = 1" "ema_state f = None \<or> (\<exists>s. ema_state f = Some s \<and> length s = n)"
    "\<forall>x\<in>set xs. length x = n"
  shows "fst (update_all f xs) = map Inr xs"
  using assms
proof (induction xs arbitrary: f)
  case Nil
  then show ?case by simp
next
  case (Cons x xs)
  have u: "EMAFilter_update f x = (Inr x, f\<lparr>ema_state := Some x\<rparr>)"
    using Cons.prems by (intro EMAFilter_update_alpha_one) auto
  have "fst (update_all (f\<lparr>ema_state := Some x\<rparr>) xs) = map Inr xs"
    using Cons.prems by (intro Cons.IH) auto
  then show ?case using u by (cases "update_all (f\<lparr>ema_state := Some x\<rparr>) xs") simp
qed

lemma alloc_fresh:
  assumes "store_ok h" "alloc h v = (a, h')"
  shows "arrays h a = None" "arrays h' a = Some v" "store_ok h'"
    "\<forall>b. b \<noteq> a \<longrightarrow> arrays h' b = arrays h b"
  using assms by (auto simp: alloc_def store_ok_def less_Suc_eq)

lemma EMAFilter_update_ref_first:
  assumes "store_ok h" "arrays h xa = Some x" "ref_state f = None"
  shows "\<exists>a h'. EMAFilter_update_ref h f xa = Some (Inr a, h', f\<lparr>ref_state := Some a\<rparr>)
           \<and> a \<noteq> xa \<and> arrays h' a = Some x \<and> arrays h' xa = Some x
           \<and> (\<forall>v. arrays (write_array h' xa v) a = Some x)"
proof -
  obtain a h' where al: "alloc h x = (a, h')" by (cases "alloc h x")
  note fr = alloc_fresh[OF assms(1) al]
  have ne: "a \<noteq> xa" using fr(1) assms(2) by auto
  then have "arrays h' xa = Some x" using fr(4) assms(2) by simp
  moreover have "\<forall>v. arrays (write_array h' xa v) a = Some x"
    using ne fr(2) by (simp add: write_array_def)
  ultimately show ?thesis
    using al assms(2,3) ne fr(2) by (simp add: EMAFilter_update_ref_def)
qed

lemma EMAFilter_update_ref_refines:
  assumes "store_ok h" "arrays h xa = Some x"
    "EMAFilter_update_ref h f xa = Some (Inr a, h', f')"
  shows "ref_state f' = Some a \<and> a \<noteq> xa \<and> arrays h' xa = Some x
         \<and> (\<exists>y. arrays h' a = Some y
               \<and> EMAFilter_update (abs_filter h f) x = (Inr y, abs_filter h' f')
               \<and> (\<forall>v. arrays (write_array h' xa v) a = Some y))"
proof (cases "ref_state f")
  case None
  from EMAFilter_update_ref_first[OF assms(1,2) None] assms(3) None
  show ?thesis
    by (auto simp: abs_filter_def EMAFilter_update_def)
next
  case (Some sa)
  then obtain state where st: "arrays h sa = Some state"
    using assms(2,3) by (auto simp: EMAFilter_update_ref_def split: option.splits)
  let ?u = "map (\<lambda>v. ref_alpha f * v) x"
  let ?w = "map (\<lambda>s. (1 - ref_alpha f) * s) state"
  obtain t1 h1 where a1: "alloc h ?u = (t1, h1)" by (cases "alloc h ?u")
  obtain t2 h2 where a2: "alloc h1 ?w = (t2, h2)" by (cases "alloc h1 ?w")
  note f1 = alloc_fresh[OF assms(1) a1]
  note f2 = alloc_fresh[OF f1(3) a2]
  obtain y where y: "broadcast2 (+) ?u ?w = Inr y"
    using assms(2,3) Some st a1 a2
    by (cases "broadcast2 (+) ?u ?w") (auto simp: EMAFilter_update_ref_def)
  obtain a3 h3 where a3: "alloc h2 y = (a3, h3)" by (cases "alloc h2 y")
  note f3 = alloc_fresh[OF f2(3) a3]
  have res: "a = a3" "h' = h3" "f' = f\<lparr>ref_state := Some a3\<rparr>"
    using assms(2,3) Some st a1 a2 y a3 by (auto simp: EMAFilter_update_ref_def)
  have x1: "xa \<noteq> t1" using f1(1) assms(2) by auto
  then have x2: "arrays h1 xa = Some x" using f1(4) assms(2) by simp
  then have x3: "xa \<noteq> t2" using f2(1) by auto
  then have x4: "arrays h2 xa = Some x" using f2(4) x2 by simp
  then have x5: "xa \<noteq> a3" using f3(1) by auto
  then have x6: "arrays h3 xa = Some x" using f3(4) x4 by simp
  have "EMAFilter_update (abs_filter h f) x = (Inr y, abs_filter h3 (f\<lparr>ref_state := Some a3\<rparr>))"
    using Some st y f3(2) by (simp add: abs_filter_def EMAFilter_update_def)
  moreover have "\<forall>v. arrays (write_array h3 xa v) a3 = Some y"
    using x5 f3(2) by (simp add: write_array_def)
  ultimately show ?thesis
    using res x5 x6 f3(2) by auto
qed

text \<open>
  Claim C9. With \<open>alpha = 1\<close> the filter returns its input on every call of a sequence of
  equally long inputs; on the first call after construction or after a reset it returns its
  input for any \<open>alpha\<close>. On the store, the first call puts a copy of the input at a fresh
  address into the state: the state does not alias the caller's array, and a later write
  into that array leaves the state as it was; the same holds for every later call, whose
  state is a freshly allocated result.
\<close>

theorem ema_alpha_one_and_first_call:
  "(alpha f = 1 \<and> (ema_state f = None \<or> (\<exists>s. ema_state f = Some s \<and> length s = n))
      \<and> (\<forall>x\<in>set xs. length x = n)
     \<longrightarrow> fst (update_all f xs) = map Inr xs)
   \<and> EMAFilter_update (EMAFilter_init a m) x = (Inr x, (EMAFilter_init a m)\<lparr>ema_state := Some x\<rparr>)
   \<and> EMAFilter_update (EMAFilter_reset g) x = (Inr x, (EMAFilter_reset g)\<lparr>ema_state := Some x\<rparr>)
   \<and> (store_ok h \<and> arrays h xa = Some x \<and> ref_state r = None
     \<longrightarrow> (\<exists>sa h'. EMAFilter_update_ref h r xa = Some (Inr sa, h', r\<lparr>ref_state := Some sa\<rparr>)
            \<and> sa \<noteq> xa \<and> arrays h' sa = Some x
            \<and> (\<forall>v. arrays (write_array h' xa v) sa = Some x)))
   \<and> (store_ok h \<and> arrays h xa = Some x \<and> EMAFilter_update_ref h r xa = Some (Inr sb, hb, rb)
     \<longrightarrow> ref_state rb = Some sb \<and> sb \<noteq> xa
         \<and> (\<exists>y. arrays hb sb = Some y
               \<and> EMAFilter_update (abs_filter h r) x = (Inr y, abs_filter hb rb)
               \<and> (\<forall>v. arrays (write_array hb xa v) sb = Some y)))"
proof (intro conjI impI)
  assume "alpha f = 1 \<and> (ema_state f = None \<or> (\<exists>s. ema_state f = Some s \<and> length s = n))
      \<and> (\<forall>x\<in>set xs. length x = n)"
  then show "fst (update_all f xs) = map Inr xs"
    using update_all_alpha_one[of f n xs] by blast
next
  show "EMAFilter_update (EMAFilter_init a m) x = (Inr x, (EMAFilter_init a m)\<lparr>ema_state := Some x\<rparr>)"
    by (rule EMAFilter_update_first) (simp add: EMAFilter_init_def)
next
  show "EMAFilter_update (EMAFilter_reset g) x = (Inr x, (EMAFilter_reset g)\<lparr>ema_state := Some x\<rparr>)"
    by (rule EMAFilter_update_first) (simp add: EMAFilter_reset_def)
next
  assume "store_ok h \<and> arrays h xa = Some x \<and> ref_state r = None"
  then show "\<exists>sa h'. EMAFilter_update_ref h r xa = Some (Inr sa, h', r\<lparr>ref_state := Some sa\<rparr>)
            \<and> sa \<noteq> xa \<and> arrays h' sa = Some x
            \<and> (\<forall>v. arrays (write_array h' xa v) sa = Some x)"
    using EMAFilter_update_ref_first[of h xa x r] by blast
next
  assume a: "store_ok h \<and> arrays h xa = Some x \<and> EMAFilter_update_ref h r xa = Some (Inr sb, hb, rb)"
  then have "ref_state rb = Some sb \<and> sb \<noteq> xa \<and> arrays hb xa = Some x
         \<and> (\<exists>y. arrays hb sb = Some y
               \<and> EMAFilter_update (abs_filter h r) x = (Inr y, abs_filter hb rb)
               \<and> (\<forall>v. arrays (write_array hb xa v) sb = Some y))"
    using EMAFilter_update_ref_refines[of h xa x r sb hb rb] by blast
  then show "ref_state rb = Some sb" "sb \<noteq> xa"
    "\<exists>y. arrays hb sb = Some y
               \<and> EMAFilter_update (abs_filter h r) x = (Inr y, abs_filter hb rb)
               \<and> (\<forall>v. arrays (write_array hb xa v) sb = Some y)"
    by blast+
qed

theorem ema_alpha_one_and_first_call_witness:
  "fst (update_all (EMAFilter_init 1 2) [[1, 2], [3, 4]]) = [Inr [1, 2], Inr [3, 4]]
   \<and> store_ok store0 \<and> arrays store0 0 = Some [1, 2] \<and> ref_state filter_ref0 = None
   \<and> (\<exists>sa h'. EMAFilter_update_ref store0 filter_ref0 0
                  = Some (Inr sa, h', filter_ref0\<lparr>ref_state := Some sa\<rparr>)
         \<and> sa \<noteq> 0 \<and> arrays (write_array h' 0 [9, 9]) sa = Some [1, 2])"
proof -
  have h1: "alpha (EMAFilter_init 1 2) = 1
      \<and> (ema_state (EMAFilter_init 1 2) = None
          \<or> (\<exists>s. ema_state (EMAFilter_init 1 2) = Some s \<and> length s = 2))
      \<and> (\<forall>x\<in>set [[1, 2], [3, 4 :: real]]. length x = 2)"
    by (simp add: EMAFilter_init_def)
  have h2: "store_ok store0 \<and> arrays store0 0 = Some [1, 2] \<and> ref_state filter_ref0 = None"
    by (simp add: store_ok_def store0_def filter_ref0_def)
  note t = ema_alpha_one_and_first_call[where f = "EMAFilter_init 1 2" and n = 2 and xs = "[[1, 2], [3, 4]]"
      and h = store0 and xa = 0 and x = "[1, 2]" and r = filter_ref0]
  from t[THEN conjunct1, THEN mp, OF h1]
  have "fst (update_all (EMAFilter_init 1 2) [[1, 2], [3, 4]]) = [Inr [1, 2], Inr [3, 4]]"
    by (simp del: update_all.simps)
  moreover from t h2 have "\<exists>sa h'. EMAFilter_update_ref store0 filter_ref0 0
                  = Some (Inr sa, h', filter_ref0\<lparr>ref_state := Some sa\<rparr>)
         \<and> sa \<noteq> 0 \<and> arrays (write_array h' 0 [9, 9]) sa = Some [1, 2]"
    by blast
  ultimately show ?thesis using h2 by blast
qed

subsection \<open>Invalid configurations\<close>

text \<open>
  Claim C6, as stated, fails: neither \<open>EMAFilter_init\<close> nor \<open>DSPPipeline_init\<close> checks
  \<open>alpha\<close>; a pipeline with \<open>alpha = 2\<close> is constructed.
\<close>

theorem alpha_not_validated_at_construction:
  "\<not> (0 < (2 :: real) \<and> (2 :: real) \<le> 1)
   \<and> \<not> isl (DSPPipeline_init 4 ''hann'' 2 10 [])
   \<and> alpha (ema_filter (projr (DSPPipeline_init 4 ''hann'' 2 10 []))) = 2
   \<and> EMAFilter_init 2 4 = \<lparr>alpha = 2, ema_size = 4, ema_state = None\<rparr>"
  by (simp add: DSPPipeline_init_def get_window_def EMAFilter_init_def)

text \<open>
  Claim C6, amended. A window type other than hann, hamming and blackman makes the
  construction of the pipeline fail in the window build. The construction accepts any
  \<open>alpha\<close> and stores it in the filter; an \<open>alpha\<close> outside (0, 1] is rejected by
  \<open>validate\<close>, the check of a loaded configuration, which also rejects an unknown window
  type.
\<close>

theorem configuration_errors:
  "(wt \<notin> {''hann'', ''hamming'', ''blackman''} \<longrightarrow> DSPPipeline_init n wt a q bs = Inl UnknownWindow)
   \<and> (wt \<in> {''hann'', ''hamming'', ''blackman''}
        \<longrightarrow> (\<exists>p. DSPPipeline_init n wt a q bs = Inr p \<and> alpha (ema_filter p) = a))
   \<and> alpha (EMAFilter_init a m) = a
   \<and> (\<not> (0 < cfg_smoothing_factor c \<and> cfg_smoothing_factor c \<le> 1) \<longrightarrow> isl (validate c))
   \<and> (cfg_window_type c \<notin> {''hann'', ''hamming'', ''blackman''} \<longrightarrow> isl (validate c))
   \<and> (and (cfg_fft_size c) (cfg_fft_size c - 1) = 0
        \<and> cfg_window_type c \<in> {''hann'', ''hamming'', ''blackman''}
        \<and> \<not> (0 < cfg_smoothing_factor c \<and> cfg_smoothing_factor c \<le> 1)
        \<longrightarrow> validate c = Inl InvalidSmoothing)"
  by (auto simp: DSPPipeline_init_def get_window_def EMAFilter_init_def validate_def)

theorem configuration_errors_witness:
  "''rect'' \<notin> {''hann'', ''hamming'', ''blackman''}
   \<and> DSPPipeline_init 4 ''rect'' (1 / 2) 10 [] = Inl UnknownWindow
   \<and> (\<exists>p. DSPPipeline_init 4 ''hann'' 2 10 [] = Inr p \<and> alpha (ema_filter p) = 2)
   \<and> and (cfg_fft_size config0) (cfg_fft_size config0 - 1) = 0
   \<and> validate config0 = Inl InvalidSmoothing"
proof -
  have h: "''rect'' \<notin> {''hann'', ''hamming'', ''blackman''}"
    "''hann'' \<in> {''hann'', ''hamming'', ''blackman''}" by simp_all
  have c: "and (cfg_fft_size config0) (cfg_fft_size config0 - 1) = 0
        \<and> cfg_window_type config0 \<in> {''hann'', ''hamming'', ''blackman''}
        \<and> \<not> (0 < cfg_smoothing_factor config0 \<and> cfg_smoothing_factor config0 \<le> 1)"
    by (simp add: config0_def)
  from configuration_errors[where wt = "''rect''" and n = 4 and a = "1 / 2" and q = 10 and bs = "[]" and c = config0] h(1)
  have 1: "DSPPipeline_init 4 ''rect'' (1 / 2) 10 [] = Inl UnknownWindow" by blast
  from configuration_errors[where wt = "''hann''" and n = 4 and a = 2 and q = 10 and bs = "[]" and c = config0] h(2) c
  have 2: "\<exists>p. DSPPipeline_init 4 ''hann'' 2 10 [] = Inr p \<and> alpha (ema_filter p) = 2"
    "validate config0 = Inl InvalidSmoothing" by blast+
  show ?thesis using h(1) 1 2 c by blast
qed

subsection \<open>Rounding to binary64\<close>

lemma round_half_even_near:
  assumes "of_int k - 1 / 2 < m" "m < of_int k + 1 / 2"
  shows "round_half_even m = k"
proof (cases "of_int k \<le> m")
  case True
  then have "\<lfloor>m\<rfloor> = k" using assms by linarith
  then show ?thesis using assms by (simp add: round_half_even_def Let_def)
next
  case False
  then have "\<lfloor>m\<rfloor> = k - 1" using assms by linarith
  then show ?thesis using assms False by (simp add: round_half_even_def Let_def)
qed

lemma floor_log2_eq:
  assumes "2 powi e \<le> x" "x < 2 powi (e + 1)"
  shows "\<lfloor>log 2 x\<rfloor> = e"
proof -
  have p: "(2 :: real) powi i = 2 powr real_of_int i" for i
    by (simp add: powr_real_of_int')
  have "0 < x" using assms(1) by (smt (verit) zero_less_power_int)
  then show ?thesis
    using assms by (subst floor_log_eq_powr_iff) (simp_all add: p)
qed

lemma round53_eval:
  assumes "2 powi e \<le> x" "x < 2 powi (e + 1)"
    "(of_int k - 1 / 2) * 2 powi (e - 52) < x" "x < (of_int k + 1 / 2) * 2 powi (e - 52)"
  shows "round53 x = of_int k * 2 powi (e - 52)"
proof -
  have pos: "0 < x" using assms(1) by (smt (verit) zero_less_power_int)
  have u: "(0 :: real) < 2 powi (e - 52)" by (simp add: zero_less_power_int)
  have "of_int k - 1 / 2 < x / 2 powi (e - 52)" "x / 2 powi (e - 52) < of_int k + 1 / 2"
    using assms(3,4) u by (simp_all add: pos_less_divide_eq pos_divide_less_eq)
  then have "round_half_even (x / 2 powi (e - 52)) = k" by (rule round_half_even_near)
  then show ?thesis
    using pos floor_log2_eq[OF assms(1,2)] by (simp add: round53_def Let_def)
qed

lemma fl_latd: "round53 (1 / 111000) = 5317980273501853 / 2 ^ 69"
  using round53_eval[of "- 17" "1 / 111000" 5317980273501853] by (simp add: power_int_minus)

lemma fl_500: "round53 (1000 / 2) = 500"
  using round53_eval[of 8 500 8796093022208000] by (simp add: power_int_minus)

lemma fl_10: "round53 (1000 / 100) = 10"
  using round53_eval[of 3 10 5629499534213120] by (simp add: power_int_minus)

lemma fl_hl: "round53 (500 * (5317980273501853 / 2 ^ 69)) = 5193340110841653 / 2 ^ 60"
  using round53_eval[of "- 8" "500 * (5317980273501853 / 2 ^ 69)" 5193340110841653]
  by (simp add: power_int_minus)



lemma fl_size_lat: "round53 (100 * (5317980273501853 / 2 ^ 69)) = 8309344177346645 / 2 ^ 63"
  using round53_eval[of "- 11" "100 * (5317980273501853 / 2 ^ 69)" 8309344177346645]
  by (simp add: power_int_minus)









lemma round53_0: "round53 0 = 0"
  by (simp add: round53_def)

lemma round53_uminus: "round53 (- x) = - round53 x"
  by (simp add: round53_def Let_def sgn_minus)

lemma round53_0_minus: "round53 (0 - x) = - round53 x"
  using round53_uminus[of x] by simp

lemma round53_0_plus: "round53 (0 + x) = round53 x"
  by simp


lemma fl_1: "round53 1 = 1"
  using round53_eval[of 0 "1" 4503599627370496] by (simp add: power_int_minus)

lemma fl_88000: "round53 (88000 * 1) = 88000"
  using round53_eval[of 16 "88000 * 1" 6047313952768000] by (simp add: power_int_minus)

lemma fl_lond: "round53 (1 / 88000) = 3353953467947191 / 2 ^ 68"
  using round53_eval[of "- 17" "1 / 88000" 6707906935894382] by (simp add: power_int_minus)

lemma fl_hn_a: "round53 (500 * (3353953467947191 / 2 ^ 68)) = 6550690367084357 / 2 ^ 60"
  using round53_eval[of "- 8" "500 * (3353953467947191 / 2 ^ 68)" 6550690367084357] by (simp add: power_int_minus)

lemma fl_hn_id_a: "round53 (6550690367084357 / 2 ^ 60) = 6550690367084357 / 2 ^ 60"
  using round53_eval[of "- 8" "6550690367084357 / 2 ^ 60" 6550690367084357] by (simp add: power_int_minus)

lemma fl_hl_id_a: "round53 (5193340110841653 / 2 ^ 60) = 5193340110841653 / 2 ^ 60"
  using round53_eval[of "- 8" "5193340110841653 / 2 ^ 60" 5193340110841653] by (simp add: power_int_minus)







lemma fl_size_lon: "round53 (100 * (3353953467947191 / 2 ^ 68)) = 2620276146833743 / 2 ^ 61"
  using round53_eval[of "- 10" "100 * (3353953467947191 / 2 ^ 68)" 5240552293667486] by (simp add: power_int_minus)

lemma cos_deg_binary64_0: "cos_deg binary64 0 = 1"
  by (simp add: binary64_def round53_0 fl_1)



subsection \<open>The tile grid: helper facts\<close>

lemma TileGrid_init_fields:
  assumes "ts \<noteq> 0"
  shows "\<exists>g. TileGrid_init A clat clon ts ext = Inr g
    \<and> lat_min g = rnd A (clat - rnd A (rnd A (ext / 2) * rnd A (1 / 111000)))
    \<and> lat_max g = rnd A (clat + rnd A (rnd A (ext / 2) * rnd A (1 / 111000)))
    \<and> lon_min g = rnd A (clon - rnd A (rnd A (ext / 2) * rnd A (1 / rnd A (88000 * cos_deg A clat))))
    \<and> lon_max g = rnd A (clon + rnd A (rnd A (ext / 2) * rnd A (1 / rnd A (88000 * cos_deg A clat))))
    \<and> tile_size_lat g = rnd A (ts * rnd A (1 / 111000))
    \<and> tile_size_lon g = rnd A (ts * rnd A (1 / rnd A (88000 * cos_deg A clat)))
    \<and> num_tiles_x g = \<lceil>rnd A (ext / ts)\<rceil> \<and> num_tiles_y g = \<lceil>rnd A (ext / ts)\<rceil>
    \<and> tiles g = generate_tiles A (lon_min g) (lat_min g) (tile_size_lon g) (tile_size_lat g)
                   (num_tiles_x g) (num_tiles_y g)"
  using assms by (simp add: TileGrid_init_def Let_def)


lemma rnd_binary64: "rnd binary64 = round53"
  by (simp add: binary64_def)



lemma trunc_nonneg: "0 \<le> x \<Longrightarrow> trunc x = \<lfloor>x\<rfloor>"
  by (simp add: trunc_def)

lemma set_generate_tiles:
  "set (generate_tiles A lo_lon lo_lat sl st nx ny) =
     {make_tile A lo_lon lo_lat sl st ix iy | ix iy. ix < nat nx \<and> iy < nat ny}"
  by (fastforce simp: generate_tiles_def)

lemma get_tile_in_bounds:
  assumes "lat_min g \<le> lat" "lat \<le> lat_max g" "lon_min g \<le> lon" "lon \<le> lon_max g"
  shows "get_tile A g lat lon =
     (max 0 (min (trunc (rnd A (rnd A (lon - lon_min g) / tile_size_lon g))) (num_tiles_x g - 1)),
      max 0 (min (trunc (rnd A (rnd A (lat - lat_min g) / tile_size_lat g))) (num_tiles_y g - 1)),
      tile_id_of (max 0 (min (trunc (rnd A (rnd A (lon - lon_min g) / tile_size_lon g))) (num_tiles_x g - 1)))
                 (max 0 (min (trunc (rnd A (rnd A (lat - lat_min g) / tile_size_lat g))) (num_tiles_y g - 1))))"
  using assms by (simp add: get_tile_def Let_def)

lemma digit_inj:
  assumes "a < 10" "b < 10" "''0123456789'' ! a = ''0123456789'' ! b"
  shows "a = b"
  using nth_eq_iff_index_eq[of "''0123456789''" a b] assms by simp

lemma str_nat_small: "n < 10 \<Longrightarrow> str_nat n = [''0123456789'' ! n]"
  by (subst str_nat.simps) simp

lemma str_nat_large:
  "\<not> n < 10 \<Longrightarrow> str_nat n = str_nat (n div 10) @ [''0123456789'' ! (n mod 10)]"
  by (subst str_nat.simps) simp

lemma str_nat_not_Nil: "str_nat n \<noteq> []"
  by (cases "n < 10") (simp_all add: str_nat_small str_nat_large)

lemma str_nat_digits: "set (str_nat n) \<subseteq> set ''0123456789''"
proof -
  define D where "D = set ''0123456789''"
  have mem: "''0123456789'' ! k \<in> D" if "k < 10" for k
    unfolding D_def using that by (intro nth_mem) simp
  have "set (str_nat n) \<subseteq> D"
  proof (induction n rule: str_nat.induct)
    case (1 n)
    show ?case
    proof (cases "n < 10")
      case True
      then show ?thesis unfolding str_nat_small[OF True] using mem by simp
    next
      case False
      have "n mod 10 < 10" by simp
      then show ?thesis
        unfolding str_nat_large[OF False] using mem 1[OF False] by simp
    qed
  qed
  then show ?thesis unfolding D_def .
qed

lemma str_nat_inj: "str_nat m = str_nat n \<Longrightarrow> m = n"
proof (induction m arbitrary: n rule: str_nat.induct)
  case (1 m)
  show ?case
  proof (cases "m < 10")
    case m: True
    show ?thesis
    proof (cases "n < 10")
      case True
      then show ?thesis using m "1.prems" digit_inj by (simp add: str_nat_small)
    next
      case False
      then show ?thesis
        using m "1.prems" str_nat_not_Nil[of "n div 10"] by (simp add: str_nat_small str_nat_large)
    qed
  next
    case m: False
    show ?thesis
    proof (cases "n < 10")
      case True
      then show ?thesis
        using m "1.prems" str_nat_not_Nil[of "m div 10"] by (simp add: str_nat_small str_nat_large)
    next
      case False
      then have e: "str_nat (m div 10) = str_nat (n div 10)"
        "''0123456789'' ! (m mod 10) = ''0123456789'' ! (n mod 10)"
        using m "1.prems" by (simp_all add: str_nat_large)
      have "m div 10 = n div 10" using "1.IH"[OF m e(1)] .
      moreover have "m mod 10 = n mod 10" using digit_inj[OF _ _ e(2)] by simp
      ultimately show ?thesis by (metis div_mult_mod_eq)
    qed
  qed
qed

lemma split_at_underscore:
  assumes "CHR ''_'' \<notin> set s1" "CHR ''_'' \<notin> set s2" "s1 @ CHR ''_'' # r1 = s2 @ CHR ''_'' # r2"
  shows "s1 = s2 \<and> r1 = r2"
  using assms
proof (induction s1 arbitrary: s2)
  case Nil
  then show ?case by (cases s2) auto
next
  case (Cons c s1)
  then show ?case by (cases s2) auto
qed

lemma tile_id_of_inj:
  assumes "0 \<le> ix" "0 \<le> iy" "0 \<le> jx" "0 \<le> jy" "tile_id_of ix iy = tile_id_of jx jy"
  shows "ix = jx \<and> iy = jy"
proof -
  have u: "CHR ''_'' \<notin> set (str_nat k)" for k using str_nat_digits[of k] by auto
  have "str_nat (nat ix) @ CHR ''_'' # CHR ''y'' # str_nat (nat iy)
      = str_nat (nat jx) @ CHR ''_'' # CHR ''y'' # str_nat (nat jy)"
    using assms by (simp add: tile_id_of_def str_int_def)
  from split_at_underscore[OF u u this]
  have "str_nat (nat ix) = str_nat (nat jx)" "str_nat (nat iy) = str_nat (nat jy)" by simp_all
  then have "nat ix = nat jx" "nat iy = nat jy" by (simp_all add: str_nat_inj)
  then show ?thesis using assms(1-4) by linarith
qed

lemma tile_id_of_in_bounds: "tile_id_of ix iy \<noteq> ''out_of_bounds''"
  by (simp add: tile_id_of_def)

lemma make_tile_fields:
  "tile_id (make_tile A lo_lon lo_lat sl st ix iy) = tile_id_of (int ix) (int iy)"
  "tile_x (make_tile A lo_lon lo_lat sl st ix iy) = int ix"
  "tile_y (make_tile A lo_lon lo_lat sl st ix iy) = int iy"
  by (simp_all add: make_tile_def Let_def)

lemma unique_tile:
  assumes "0 \<le> ix" "ix < nx" "0 \<le> iy" "iy < ny"
  shows "(\<exists>!t. t \<in> set (generate_tiles A lo_lon lo_lat sl st nx ny) \<and> tile_id t = tile_id_of ix iy)
       \<and> (\<forall>t\<in>set (generate_tiles A lo_lon lo_lat sl st nx ny).
             tile_id t = tile_id_of ix iy \<longrightarrow> tile_x t = ix \<and> tile_y t = iy)"
proof -
  let ?T = "set (generate_tiles A lo_lon lo_lat sl st nx ny)"
  let ?t = "make_tile A lo_lon lo_lat sl st (nat ix) (nat iy)"
  have "nat ix < nat nx" "nat iy < nat ny" using assms by linarith+
  then have in_T: "?t \<in> ?T" unfolding set_generate_tiles by blast
  have id: "tile_id ?t = tile_id_of ix iy" using assms by (simp add: make_tile_fields)
  have eq: "t = ?t" if "t \<in> ?T" "tile_id t = tile_id_of ix iy" for t
  proof -
    from that(1) obtain jx jy where j: "t = make_tile A lo_lon lo_lat sl st jx jy"
      unfolding set_generate_tiles by blast
    then have "tile_id_of (int jx) (int jy) = tile_id_of ix iy"
      using that(2) by (simp add: make_tile_fields)
    then have "int jx = ix \<and> int jy = iy" using assms by (intro tile_id_of_inj) simp_all
    then show ?thesis using j by auto
  qed
  have "\<exists>!t. t \<in> ?T \<and> tile_id t = tile_id_of ix iy"
    using in_T id eq by blast
  moreover have "\<forall>t\<in>?T. tile_id t = tile_id_of ix iy \<longrightarrow> tile_x t = ix \<and> tile_y t = iy"
  proof (intro ballI impI)
    fix t assume "t \<in> ?T" "tile_id t = tile_id_of ix iy"
    then have "t = ?t" by (rule eq)
    then show "tile_x t = ix \<and> tile_y t = iy" using assms by (simp add: make_tile_fields)
  qed
  ultimately show ?thesis by blast
qed






lemma grid0_fields:
  "TileGrid_init binary64 0 0 100 1000 = Inr grid0"
  "lat_min grid0 = - (5193340110841653 / 2 ^ 60)" "lat_max grid0 = 5193340110841653 / 2 ^ 60"
  "lon_min grid0 = - (6550690367084357 / 2 ^ 60)" "lon_max grid0 = 6550690367084357 / 2 ^ 60"
  "tile_size_lat grid0 = 8309344177346645 / 2 ^ 63" "tile_size_lon grid0 = 2620276146833743 / 2 ^ 61"
  "num_tiles_x grid0 = 10" "num_tiles_y grid0 = 10"
  "tiles grid0 = generate_tiles binary64 (lon_min grid0) (lat_min grid0)
     (tile_size_lon grid0) (tile_size_lat grid0) 10 10"
proof -
  obtain g where g: "TileGrid_init binary64 0 0 100 1000 = Inr g"
    and f: "lat_min g = rnd binary64 (0 - rnd binary64 (rnd binary64 (1000 / 2) * rnd binary64 (1 / 111000)))"
      "lat_max g = rnd binary64 (0 + rnd binary64 (rnd binary64 (1000 / 2) * rnd binary64 (1 / 111000)))"
      "lon_min g = rnd binary64 (0 - rnd binary64 (rnd binary64 (1000 / 2) * rnd binary64 (1 / rnd binary64 (88000 * cos_deg binary64 0))))"
      "lon_max g = rnd binary64 (0 + rnd binary64 (rnd binary64 (1000 / 2) * rnd binary64 (1 / rnd binary64 (88000 * cos_deg binary64 0))))"
      "tile_size_lat g = rnd binary64 (100 * rnd binary64 (1 / 111000))"
      "tile_size_lon g = rnd binary64 (100 * rnd binary64 (1 / rnd binary64 (88000 * cos_deg binary64 0)))"
      "num_tiles_x g = \<lceil>rnd binary64 (1000 / 100)\<rceil>" "num_tiles_y g = \<lceil>rnd binary64 (1000 / 100)\<rceil>"
    and t: "tiles g = generate_tiles binary64 (lon_min g) (lat_min g) (tile_size_lon g) (tile_size_lat g)
              (num_tiles_x g) (num_tiles_y g)"
    using TileGrid_init_fields[of 100 binary64 0 0 1000] by auto
  have e: "grid0 = g" by (simp add: grid0_def g)
  show "TileGrid_init binary64 0 0 100 1000 = Inr grid0" using g e by simp
  show "lat_min grid0 = - (5193340110841653 / 2 ^ 60)"
    unfolding e f rnd_binary64 fl_500 fl_latd fl_hl round53_0_minus fl_hl_id_a ..
  show "lat_max grid0 = 5193340110841653 / 2 ^ 60"
    unfolding e f rnd_binary64 fl_500 fl_latd fl_hl round53_0_plus fl_hl_id_a ..
  show "lon_min grid0 = - (6550690367084357 / 2 ^ 60)"
    unfolding e f rnd_binary64 cos_deg_binary64_0 fl_88000 fl_lond fl_500 fl_hn_a round53_0_minus fl_hn_id_a ..
  show "lon_max grid0 = 6550690367084357 / 2 ^ 60"
    unfolding e f rnd_binary64 cos_deg_binary64_0 fl_88000 fl_lond fl_500 fl_hn_a round53_0_plus fl_hn_id_a ..
  show "tile_size_lat grid0 = 8309344177346645 / 2 ^ 63"
    unfolding e f rnd_binary64 fl_latd fl_size_lat ..
  show "tile_size_lon grid0 = 2620276146833743 / 2 ^ 61"
    unfolding e f rnd_binary64 cos_deg_binary64_0 fl_88000 fl_lond fl_size_lon ..
  show n: "num_tiles_x grid0 = 10" "num_tiles_y grid0 = 10"
    unfolding e f rnd_binary64 fl_10 by simp_all
  show "tiles grid0 = generate_tiles binary64 (lon_min grid0) (lat_min grid0)
     (tile_size_lon grid0) (tile_size_lat grid0) 10 10"
    using t unfolding e[symmetric] n .
qed



lemma grid0_point:
  "lat_min grid0 \<le> 1 / 1000" "1 / 1000 \<le> lat_max grid0"
  "lon_min grid0 \<le> - 1 / 1000" "- 1 / 1000 \<le> lon_max grid0"
  unfolding grid0_fields by simp_all

subsection \<open>Locating the midpoint of a tile\<close>




subsection \<open>The centre of the grid\<close>






subsection \<open>The buffer of the tile aggregator\<close>

lemma add_frame_in_bounds:
  assumes p: "lat_deg f = Some lat" "lon_deg f = Some lon"
    and b: "lat_min (tile_grid a) \<le> lat" "lat \<le> lat_max (tile_grid a)"
           "lon_min (tile_grid a) \<le> lon" "lon \<le> lon_max (tile_grid a)"
  shows "\<exists>row. add_frame A a f = a\<lparr>frame_buffer := frame_buffer a @ [row]\<rparr>
           \<and> row_bands row = zip (bandpower_db f) (occupancy_pct f)
           \<and> (row_tile_x row, row_tile_y row, row_tile_id row) = get_tile A (tile_grid a) lat lon
           \<and> row_timestamp_ns row = timestamp_ns f
           \<and> row_anomaly_score row = anomaly_score f"
proof -
  obtain tx ty tid where g: "get_tile A (tile_grid a) lat lon = (tx, ty, tid)"
    by (cases "get_tile A (tile_grid a) lat lon") auto
  have "tid = tile_id_of tx ty" using g unfolding get_tile_in_bounds[OF b] by auto
  then have o: "tid \<noteq> ''out_of_bounds''" by (simp add: tile_id_of_in_bounds)
  show ?thesis
    by (rule exI[of _ "\<lparr>row_frame_id = frame_id f, row_timestamp_ns = timestamp_ns f,
                         row_lat_deg = lat, row_lon_deg = lon,
                         row_tile_id = tid, row_tile_x = tx, row_tile_y = ty,
                         row_noise_floor_db = noise_floor_db f,
                         row_bands = zip (bandpower_db f) (occupancy_pct f),
                         row_anomaly_score = anomaly_score f\<rparr>"])
       (simp add: add_frame_def p g o)
qed

lemma aggregate_empty: "frame_buffer a = [] \<Longrightarrow> aggregate a = (Inr [], a)"
  by (simp add: aggregate_def)

lemma aggregate_cases:
  "aggregate a = (Inr [], a) \<and> frame_buffer a = []
   \<or> aggregate a = (Inl MissingColumn, a) \<and> frame_buffer a \<noteq> []
       \<and> (\<exists>i<num_bands a. \<not> has_column (frame_buffer a) i)
   \<or> (\<exists>out. aggregate a = (Inr out, a\<lparr>frame_buffer := []\<rparr>)) \<and> frame_buffer a \<noteq> []
       \<and> (\<forall>i<num_bands a. has_column (frame_buffer a) i)"
  by (auto simp: aggregate_def)

lemma aggregate_Inr:
  assumes "aggregate a = (Inr out, a')"
  shows "a' = a\<lparr>frame_buffer := []\<rparr>" "frame_buffer a' = []" "aggregate a' = (Inr [], a')"
proof -
  show 1: "a' = a\<lparr>frame_buffer := []\<rparr>" using aggregate_cases[of a] assms by auto
  show 2: "frame_buffer a' = []" unfolding 1 by simp
  show "aggregate a' = (Inr [], a')" using 2 by (rule aggregate_empty)
qed

lemma aggregate_Inl:
  assumes "aggregate a = (Inl e, a')"
  shows "e = MissingColumn" "a' = a" "frame_buffer a \<noteq> []"
    "\<exists>i<num_bands a. \<not> has_column (frame_buffer a) i"
  using aggregate_cases[of a] assms by auto

lemma aggregate_raises_iff:
  "fst (aggregate a) = Inl MissingColumn \<longleftrightarrow>
     frame_buffer a \<noteq> [] \<and> (\<exists>i<num_bands a. \<forall>r\<in>set (frame_buffer a). length (row_bands r) \<le> i)"
proof -
  have h: "has_column rows i = (\<not> (\<forall>r\<in>set rows. length (row_bands r) \<le> i))" for rows i
    by (simp add: has_column_def not_le)
  show ?thesis using aggregate_cases[of a] unfolding h by auto
qed



lemma aggregate_single:
  assumes "frame_buffer a = [row]" "\<forall>i<num_bands a. i < length (row_bands row)"
    "tile_lookup (tile_grid a) (row_tile_id row) = Some t"
  shows "aggregate a = (Inr [tile_metric (num_bands a) t (row_tile_id row) [row]], a\<lparr>frame_buffer := []\<rparr>)"
  using assms by (simp add: aggregate_def has_column_def)

lemma tile_lookup_Some: "t \<in> set (tiles g) \<Longrightarrow> \<exists>t'. tile_lookup g (tile_id t) = Some t'"
proof -
  assume "t \<in> set (tiles g)"
  then have "tile_id t \<in> fst ` set (rev (map (\<lambda>t. (tile_id t, t)) (tiles g)))" by force
  then have "map_of (rev (map (\<lambda>t. (tile_id t, t)) (tiles g))) (tile_id t) \<noteq> None"
    by (simp only: map_of_eq_None_iff not_not)
  then show ?thesis by (auto simp: tile_lookup_def)
qed

lemma grid0_point_tile:
  "\<exists>ix iy t. get_tile A grid0 (1 / 1000) (- 1 / 1000) = (ix, iy, tile_id_of ix iy)
     \<and> tile_lookup grid0 (tile_id_of ix iy) = Some t"
proof -
  have t: "tiles grid0 = generate_tiles binary64 (lon_min grid0) (lat_min grid0)
     (tile_size_lon grid0) (tile_size_lat grid0) (num_tiles_x grid0) (num_tiles_y grid0)"
    unfolding grid0_fields(8,9) by (rule grid0_fields(10))
  have n: "1 \<le> num_tiles_x grid0" "1 \<le> num_tiles_y grid0" unfolding grid0_fields by simp_all
  have b: "lat_min grid0 \<le> 1 / 1000" "1 / 1000 \<le> lat_max grid0"
  "lon_min grid0 \<le> - 1 / 1000" "- 1 / 1000 \<le> lon_max grid0" by (rule grid0_point)+
  define ix where "ix = max 0 (min (trunc (rnd A (rnd A (- 1 / 1000 - lon_min grid0) / tile_size_lon grid0))) (num_tiles_x grid0 - 1))"
  define iy where "iy = max 0 (min (trunc (rnd A (rnd A (1 / 1000 - lat_min grid0) / tile_size_lat grid0))) (num_tiles_y grid0 - 1))"
  have r: "get_tile A grid0 (1 / 1000) (- 1 / 1000) = (ix, iy, tile_id_of ix iy)"
    unfolding ix_def iy_def by (rule get_tile_in_bounds[OF b])
  have x: "0 \<le> ix" "ix < num_tiles_x grid0" unfolding ix_def using n(1) by linarith+
  have y: "0 \<le> iy" "iy < num_tiles_y grid0" unfolding iy_def using n(2) by linarith+
  from unique_tile[OF x y, of binary64 "lon_min grid0" "lat_min grid0" "tile_size_lon grid0" "tile_size_lat grid0"]
  obtain u where u: "u \<in> set (tiles grid0)" "tile_id u = tile_id_of ix iy"
    unfolding t[symmetric] by blast
  from tile_lookup_Some[OF u(1)] obtain t' where "tile_lookup grid0 (tile_id_of ix iy) = Some t'"
    unfolding u(2) by blast
  with r show ?thesis by blast
qed

lemma agg_fields:
  "tile_grid agg1 = grid0" "num_bands agg1 = 1" "frame_buffer agg1 = []"
  "tile_grid agg2 = grid0" "num_bands agg2 = 2" "frame_buffer agg2 = []"
  by (simp_all add: agg1_def agg2_def TileAggregator_init_def)

lemma add_frame_grid0:
  assumes "tile_grid a = grid0" "lat_deg f = Some (1 / 1000)" "lon_deg f = Some (- 1 / 1000)"
  shows "\<exists>row t. add_frame binary64 a f = a\<lparr>frame_buffer := frame_buffer a @ [row]\<rparr>
           \<and> row_bands row = zip (bandpower_db f) (occupancy_pct f)
           \<and> tile_lookup grid0 (row_tile_id row) = Some t"
proof -
  have b: "lat_min (tile_grid a) \<le> 1 / 1000" "1 / 1000 \<le> lat_max (tile_grid a)"
    "lon_min (tile_grid a) \<le> - 1 / 1000" "- 1 / 1000 \<le> lon_max (tile_grid a)"
    unfolding assms(1) by (rule grid0_point)+
  from add_frame_in_bounds[OF assms(2,3) b, of binary64]
  obtain row where r: "add_frame binary64 a f = a\<lparr>frame_buffer := frame_buffer a @ [row]\<rparr>"
    "row_bands row = zip (bandpower_db f) (occupancy_pct f)"
    "(row_tile_x row, row_tile_y row, row_tile_id row) = get_tile binary64 (tile_grid a) (1 / 1000) (- 1 / 1000)"
    by blast
  from grid0_point_tile[of binary64] obtain ix iy t where
    g: "get_tile binary64 grid0 (1 / 1000) (- 1 / 1000) = (ix, iy, tile_id_of ix iy)"
    "tile_lookup grid0 (tile_id_of ix iy) = Some t" by blast
  have "row_tile_id row = tile_id_of ix iy" using r(3) unfolding assms(1) g(1) by simp
  then have "tile_lookup grid0 (row_tile_id row) = Some t" using g(2) by simp
  with r(1,2) show ?thesis by blast
qed

lemma features_fields:
  "lat_deg features0 = Some (1 / 1000)" "lon_deg features0 = Some (- 1 / 1000)"
  "lat_deg features1 = Some (1 / 1000)" "lon_deg features1 = Some (- 1 / 1000)"
  "lat_deg features3 = Some (1 / 1000)" "lon_deg features3 = Some (- 1 / 1000)"
  "bandpower_db features0 = []" "occupancy_pct features0 = []"
  "bandpower_db features1 = [1]" "occupancy_pct features1 = [10]"
  "bandpower_db features3 = [1, 2, 3]" "occupancy_pct features3 = [10, 20, 30]"
  by (simp_all add: features0_def features1_def features3_def)

lemma add_features0:
  "\<exists>row. add_frame binary64 agg1 features0 = agg1\<lparr>frame_buffer := [row]\<rparr> \<and> row_bands row = []"
  using add_frame_grid0[OF agg_fields(1) features_fields(1,2)]
  unfolding agg_fields features_fields by auto

lemma add_features1:
  "\<exists>row t. add_frame binary64 agg1 features1 = agg1\<lparr>frame_buffer := [row]\<rparr>
     \<and> row_bands row = [(1, 10)] \<and> tile_lookup grid0 (row_tile_id row) = Some t"
  using add_frame_grid0[OF agg_fields(1) features_fields(3,4)]
  unfolding agg_fields features_fields by auto


text \<open>
  Claim C4, as stated, fails: the buffer is cleared by the last statement of
  \<^verbatim>\<open>aggregate\<close>, after the group-by. When the aggregator is configured for one band and the
  only buffered record has no band (the default of \<^verbatim>\<open>FrameFeatures.bandpower_db\<close>), the
  group-by names the column \<^verbatim>\<open>bandpower_db_0\<close>, which the data frame does not have, and
  raises: the buffer still holds the record after the call, and a second call raises again
  instead of returning the empty list. The same holds for \<^verbatim>\<open>flush\<close>.
\<close>

theorem aggregate_raises_and_keeps_buffer:
  "num_bands agg1 = 1 \<and> bandpower_db features0 = []
   \<and> length (frame_buffer (add_frame binary64 agg1 features0)) = 1
   \<and> aggregate (add_frame binary64 agg1 features0)
       = (Inl MissingColumn, add_frame binary64 agg1 features0)
   \<and> length (frame_buffer (snd (aggregate (add_frame binary64 agg1 features0)))) = 1
   \<and> fst (aggregate (snd (aggregate (add_frame binary64 agg1 features0)))) = Inl MissingColumn
   \<and> flush (add_frame binary64 agg1 features0)
       = (Inl MissingColumn, add_frame binary64 agg1 features0)"
proof -
  from add_features0 obtain row where
    r: "add_frame binary64 agg1 features0 = agg1\<lparr>frame_buffer := [row]\<rparr>" "row_bands row = []"
    by blast
  have a: "aggregate (agg1\<lparr>frame_buffer := [row]\<rparr>) = (Inl MissingColumn, agg1\<lparr>frame_buffer := [row]\<rparr>)"
    by (simp add: aggregate_def has_column_def r(2) agg_fields)
  show ?thesis unfolding r(1) flush_def a by (simp add: agg_fields features_fields a)
qed

text \<open>
  Claim C4, amended: \<^verbatim>\<open>aggregate\<close> on an empty buffer returns the empty list. After every
  call to \<^verbatim>\<open>aggregate\<close> or \<^verbatim>\<open>flush\<close> that returns, the buffer has length 0 and nothing
  else of the aggregator has changed, so that a second call with no add between returns the
  empty list. A call that raises (it does so only with the error of a missing column, when
  the buffer is not empty and some band index below \<^verbatim>\<open>num_bands\<close> is in no buffered row)
  leaves the aggregator, and its buffer, unchanged. The call returns exactly when the buffer
  is empty or every band index below \<^verbatim>\<open>num_bands\<close> is in some buffered row.
  \<^verbatim>\<open>flush\<close> is \<^verbatim>\<open>aggregate\<close>.
\<close>

theorem aggregate_clears_buffer_when_it_returns:
  "(frame_buffer a = [] \<longrightarrow> aggregate a = (Inr [], a))
   \<and> (\<forall>out a'. aggregate a = (Inr out, a')
          \<longrightarrow> a' = a\<lparr>frame_buffer := []\<rparr> \<and> length (frame_buffer a') = 0
              \<and> aggregate a' = (Inr [], a'))
   \<and> (\<forall>e a'. aggregate a = (Inl e, a')
          \<longrightarrow> e = MissingColumn \<and> a' = a \<and> frame_buffer a \<noteq> []
              \<and> (\<exists>i<num_bands a. \<forall>r\<in>set (frame_buffer a). length (row_bands r) \<le> i))
   \<and> ((\<exists>out. fst (aggregate a) = Inr out)
        \<longleftrightarrow> frame_buffer a = []
            \<or> (\<forall>i<num_bands a. \<exists>r\<in>set (frame_buffer a). i < length (row_bands r)))
   \<and> flush a = aggregate a"
proof (intro conjI allI impI)
  assume "frame_buffer a = []"
  then show "aggregate a = (Inr [], a)" by (rule aggregate_empty)
next
  fix out a' assume h: "aggregate a = (Inr out, a')"
  show "a' = a\<lparr>frame_buffer := []\<rparr>" by (rule aggregate_Inr(1)[OF h])
  show "length (frame_buffer a') = 0" using aggregate_Inr(2)[OF h] by simp
  show "aggregate a' = (Inr [], a')" by (rule aggregate_Inr(3)[OF h])
next
  fix e a' assume h: "aggregate a = (Inl e, a')"
  show "e = MissingColumn" by (rule aggregate_Inl(1)[OF h])
  show "a' = a" by (rule aggregate_Inl(2)[OF h])
  show "frame_buffer a \<noteq> []" by (rule aggregate_Inl(3)[OF h])
  have "fst (aggregate a) = Inl MissingColumn" using h aggregate_Inl(1)[OF h] by simp
  then show "\<exists>i<num_bands a. \<forall>r\<in>set (frame_buffer a). length (row_bands r) \<le> i"
    unfolding aggregate_raises_iff by blast
next
  have "(\<exists>out. fst (aggregate a) = Inr out) \<longleftrightarrow> fst (aggregate a) \<noteq> Inl MissingColumn"
    using aggregate_cases[of a] by auto
  also have "\<dots> \<longleftrightarrow> frame_buffer a = []
            \<or> (\<forall>i<num_bands a. \<exists>r\<in>set (frame_buffer a). i < length (row_bands r))"
    unfolding aggregate_raises_iff by (auto simp: not_le)
  finally show "(\<exists>out. fst (aggregate a) = Inr out)
        \<longleftrightarrow> frame_buffer a = []
            \<or> (\<forall>i<num_bands a. \<exists>r\<in>set (frame_buffer a). i < length (row_bands r))" .
next
  show "flush a = aggregate a" by (rule flush_def)
qed

theorem aggregate_clears_buffer_when_it_returns_witness:
  "frame_buffer agg1 = [] \<and> aggregate agg1 = (Inr [], agg1)
   \<and> length (frame_buffer (add_frame binary64 agg1 features1)) = 1
   \<and> (\<exists>out. fst (aggregate (add_frame binary64 agg1 features1)) = Inr out \<and> length out = 1)
   \<and> length (frame_buffer (snd (aggregate (add_frame binary64 agg1 features1)))) = 0
   \<and> fst (aggregate (snd (aggregate (add_frame binary64 agg1 features1)))) = Inr []
   \<and> (\<exists>e. fst (aggregate (add_frame binary64 agg1 features0)) = Inl e)
   \<and> snd (aggregate (add_frame binary64 agg1 features0)) = add_frame binary64 agg1 features0
   \<and> frame_buffer (add_frame binary64 agg1 features0) \<noteq> []"
proof -
  from add_features1 obtain row t where
    r: "add_frame binary64 agg1 features1 = agg1\<lparr>frame_buffer := [row]\<rparr>"
       "row_bands row = [(1, 10)]" "tile_lookup grid0 (row_tile_id row) = Some t"
    by blast
  define a1 where "a1 = agg1\<lparr>frame_buffer := [row]\<rparr>"
  define m where "m = tile_metric (num_bands a1) t (row_tile_id row) [row]"
  have f: "frame_buffer a1 = [row]" "\<forall>i<num_bands a1. i < length (row_bands row)"
    "tile_lookup (tile_grid a1) (row_tile_id row) = Some t"
    by (simp_all add: a1_def agg_fields r)
  have s: "aggregate a1 = (Inr [m], a1\<lparr>frame_buffer := []\<rparr>)"
    unfolding m_def by (rule aggregate_single[OF f])
  have e: "frame_buffer agg1 = []" by (rule agg_fields(3))
  from aggregate_clears_buffer_when_it_returns[of agg1, THEN conjunct1, THEN mp, OF e]
  have 1: "aggregate agg1 = (Inr [], agg1)" .
  from aggregate_clears_buffer_when_it_returns[of a1, THEN conjunct2, THEN conjunct1, THEN spec, THEN spec, THEN mp, OF s]
  have 2: "length (frame_buffer (a1\<lparr>frame_buffer := []\<rparr>)) = 0"
    "aggregate (a1\<lparr>frame_buffer := []\<rparr>) = (Inr [], a1\<lparr>frame_buffer := []\<rparr>)"
    by blast+
  from add_features0 obtain row0 where
    r0: "add_frame binary64 agg1 features0 = agg1\<lparr>frame_buffer := [row0]\<rparr>" "row_bands row0 = []"
    by blast
  define a0 where "a0 = agg1\<lparr>frame_buffer := [row0]\<rparr>"
  have s0: "aggregate a0 = (Inl MissingColumn, a0)"
    by (simp add: a0_def aggregate_def has_column_def r0(2) agg_fields)
  from aggregate_clears_buffer_when_it_returns[of a0, THEN conjunct2, THEN conjunct2, THEN conjunct1, THEN spec, THEN spec, THEN mp, OF s0]
  have 3: "frame_buffer a0 \<noteq> []" by blast
  have 4: "length (frame_buffer a1) = 1" by (simp add: f(1))
  show ?thesis
    unfolding r(1) r0(1) a1_def[symmetric] a0_def[symmetric] s s0 fst_conv snd_conv
    using e 1 2 3 4 by simp
qed

subsection \<open>Records whose band lists have another length\<close>




end
